theory Spec2Isabelle
  imports Complex_Main "HOL-Library.Log_Nat"
begin

section \<open>The Stripe service of the payments plugin\<close>

text \<open>
  A shallow embedding of \<^verbatim>\<open>packages/payments-plugin/src/stripe/stripe.service.ts\<close>:
  the class \<^verbatim>\<open>StripeService\<close> with its methods \<^verbatim>\<open>createPaymentIntent\<close>,
  \<^verbatim>\<open>createRefund\<close>, \<^verbatim>\<open>constructEventFromPayload\<close>, \<^verbatim>\<open>getStripeCustomerId\<close> and
  \<^verbatim>\<open>currencyHasFractionPart\<close>.

  The service is an orchestration layer: it reads and writes entities through a
  repository, calls the Stripe client, and logs. The model makes each of these visible:
  \<^item> the order and customer tables are a \<open>Database\<close>, passed in and returned;
  \<^item> every call that leaves the service (repository, Stripe client, logger) is
    appended to a list of \<open>Effect\<close>s, in program order, with its arguments;
  \<^item> a thrown value (a rejected promise of an \<^verbatim>\<open>async\<close> method) is the \<open>Inl\<close> of the
    result, a returned value the \<open>Inr\<close>;
  \<^item> what the Stripe client and the number formatter of the JavaScript runtime answer
    is not code of the service: the answers are fields of the environment \<open>Env\<close>, and
    every theorem holds for every environment;
  \<^item> a \<^verbatim>\<open>number\<close> is a double: the division of the stored total by 100 rounds its
    result to the nearest double.
\<close>

subsection \<open>Entities and request types\<close>

text \<open>
  \<^verbatim>\<open>ID\<close> of the core package is \<^verbatim>\<open>string | number\<close>; the model takes the string form.
  \<^verbatim>\<open>CurrencyCode\<close> is a string enum of ISO 4217 codes (\<^verbatim>\<open>'USD'\<close>, \<^verbatim>\<open>'JPY'\<close>, ...).
  An optional or nullable property is an \<open>option\<close>: \<open>None\<close> is \<^verbatim>\<open>undefined\<close> or
  \<^verbatim>\<open>null\<close>.
\<close>

type_synonym ID = string
type_synonym CurrencyCode = string
type_synonym Buffer = "char list"

record CustomerCustomFields =
  stripeCustomerId :: "string option"

text \<open>The entity \<^verbatim>\<open>Customer\<close>: \<^verbatim>\<open>id\<close>, \<^verbatim>\<open>emailAddress\<close>, \<^verbatim>\<open>firstName\<close>, \<^verbatim>\<open>lastName\<close>,
  \<^verbatim>\<open>customFields\<close>.\<close>

record Customer =
  c_id :: ID
  c_emailAddress :: string
  c_firstName :: string
  c_lastName :: string
  c_customFields :: CustomerCustomFields

text \<open>The entity \<^verbatim>\<open>Order\<close>: \<^verbatim>\<open>id\<close>, \<^verbatim>\<open>code\<close>, \<^verbatim>\<open>currencyCode\<close>, \<^verbatim>\<open>totalWithTax\<close> (an
  integer-valued number, the money value times 100) and the relation \<^verbatim>\<open>customer\<close>, which is
  \<open>None\<close> when the relation was not loaded or the order has no customer.\<close>

record Order =
  o_id :: ID
  o_code :: string
  o_currencyCode :: CurrencyCode
  o_totalWithTax :: int
  o_customer :: "Customer option"

record Channel =
  token :: string

record RequestContext =
  activeUserId :: "ID option"
  channel :: Channel

record StripePluginOptions =
  apiKey :: string
  webhookSigningSecret :: string
  storeCustomersInStripe :: bool

text \<open>The parameters of the Stripe client's calls, with the properties the service
  sets, and the parts of its answers the service reads.\<close>

record AutomaticPaymentMethods =
  enabled :: bool

record Metadata =
  channelToken :: string
  orderId :: ID
  orderCode :: string

record PaymentIntentCreateParams =
  amount :: int
  currency :: string
  customer :: "string option"
  automatic_payment_methods :: AutomaticPaymentMethods
  metadata :: Metadata

record PaymentIntent =
  pi_id :: string
  client_secret :: "string option"

record RefundCreateParams =
  payment_intent :: string
  r_amount :: int

record Refund =
  re_id :: string
  re_amount :: int

record CustomerListParams =
  l_email :: string

record CustomerCreateParams =
  email :: string
  name :: string

record StripeCustomer =
  sc_id :: string
  sc_email :: string

record 'a ApiList =
  data :: "'a list"

record Event =
  ev_id :: string
  ev_type :: string

text \<open>A thrown value. JavaScript can throw anything; the service never inspects what it
  catches, so a name and a message stand for it.\<close>

datatype Thrown = Thrown string string

text \<open>The return type \<^verbatim>\<open>Stripe.Refund | Stripe.StripeError\<close> of \<^verbatim>\<open>createRefund\<close>: a
  returned refund, or a caught value returned as a value.\<close>

datatype RefundResult = RefundValue Refund | ErrorValue Thrown

record NumberFormatPart =
  p_type :: string
  p_value :: string

subsection \<open>The environment\<close>

text \<open>The Stripe client \<^verbatim>\<open>this.stripe\<close>: what each of its methods answers to a request,
  \<open>Inl\<close> when it throws.\<close>

record Stripe =
  paymentIntents_create :: "PaymentIntentCreateParams \<Rightarrow> Thrown + PaymentIntent"
  refunds_create :: "RefundCreateParams \<Rightarrow> Thrown + Refund"
  webhooks_constructEvent :: "Buffer \<Rightarrow> string \<Rightarrow> string \<Rightarrow> Thrown + Event"
  customers_list :: "CustomerListParams \<Rightarrow> Thrown + StripeCustomer ApiList"
  customers_create :: "CustomerCreateParams \<Rightarrow> Thrown + StripeCustomer"

text \<open>
  \<open>options\<close> is the injected \<^verbatim>\<open>StripePluginOptions\<close>, \<open>stripe\<close> the client built in the
  constructor, \<open>loggerCtx\<close> the constant imported from \<^verbatim>\<open>./constants\<close>, and
  \<open>formatToParts c x\<close> what
  \<^verbatim>\<open>new Intl.NumberFormat(undefined, {style: 'currency', currency: c, currencyDisplay: 'symbol'}).formatToParts(x)\<close>
  returns in the running JavaScript engine (every member of \<^verbatim>\<open>CurrencyCode\<close> is a
  well-formed code, for which the constructor does not throw).
\<close>

record Env =
  options :: StripePluginOptions
  stripe :: Stripe
  loggerCtx :: string
  formatToParts :: "CurrencyCode \<Rightarrow> rat \<Rightarrow> NumberFormatPart list"

subsection \<open>The database, effects and actions\<close>

text \<open>
  Modelled from the spec: the persistence accessor (\<^verbatim>\<open>TransactionalConnection\<close> and its
  repositories) is not part of the service's file. The spec gives its contract: fetch an
  Order by id with its Customer relation eagerly loaded; save a Customer record's
  mutated field (non-reloading save). The tables hold one row per id; an order row
  holds the id of its customer. The accessor is taken not to throw.
\<close>

record OrderRow =
  row_code :: string
  row_currencyCode :: CurrencyCode
  row_totalWithTax :: int
  row_customerId :: "ID option"

record CustomerRow =
  row_emailAddress :: string
  row_firstName :: string
  row_lastName :: string
  row_customFields :: CustomerCustomFields

record Database =
  orderTable :: "ID \<Rightarrow> OrderRow option"
  customerTable :: "ID \<Rightarrow> CustomerRow option"

text \<open>Every call that leaves the service, with its arguments.\<close>

datatype Effect =
    RepoFindOneOrder ID "string list"
  | RepoSaveCustomer Customer bool
  | StripePaymentIntentsCreate PaymentIntentCreateParams
  | StripeRefundsCreate RefundCreateParams
  | StripeWebhooksConstructEvent Buffer string string
  | StripeCustomersList CustomerListParams
  | StripeCustomersCreate CustomerCreateParams
  | LoggerWarn string string
  | LoggerInfo string string

text \<open>An action runs on a database and gives: what it returned or threw, the database
  afterwards, and the effects it emitted, oldest first.\<close>

type_synonym 'a Outcome = "(Thrown + 'a) \<times> Database \<times> Effect list"
type_synonym 'a Action = "Database \<Rightarrow> 'a Outcome"

abbreviation resultOf :: "'a Outcome \<Rightarrow> Thrown + 'a" where
  "resultOf r \<equiv> fst r"

abbreviation dbOf :: "'a Outcome \<Rightarrow> Database" where
  "dbOf r \<equiv> fst (snd r)"

abbreviation effectsOf :: "'a Outcome \<Rightarrow> Effect list" where
  "effectsOf r \<equiv> snd (snd r)"

definition returns :: "'a \<Rightarrow> 'a Action" where
  "returns x = (\<lambda>db. (Inr x, db, []))"

text \<open>Sequencing (\<^verbatim>\<open>await\<close>, or the next statement): a thrown value ends the method,
  keeping the effects emitted so far.\<close>

definition andThen :: "'a Action \<Rightarrow> ('a \<Rightarrow> 'b Action) \<Rightarrow> 'b Action" where
  "andThen m f = (\<lambda>db.
     case m db of
       (Inl e, db1, es1) \<Rightarrow> (Inl e, db1, es1)
     | (Inr x, db1, es1) \<Rightarrow>
         (case f x db1 of (r, db2, es2) \<Rightarrow> (r, db2, es1 @ es2)))"

text \<open>\<^verbatim>\<open>try { ... } catch (e) { ... }\<close>.\<close>

definition tryCatch :: "'a Action \<Rightarrow> (Thrown \<Rightarrow> 'a Action) \<Rightarrow> 'a Action" where
  "tryCatch m h = (\<lambda>db.
     case m db of
       (Inl e, db1, es1) \<Rightarrow>
         (case h e db1 of (r, db2, es2) \<Rightarrow> (r, db2, es1 @ es2))
     | (Inr x, db1, es1) \<Rightarrow> (Inr x, db1, es1))"

text \<open>A call of an outside collaborator: the call is recorded, and its answer is
  returned or thrown.\<close>

definition call :: "Effect \<Rightarrow> Thrown + 'a \<Rightarrow> 'a Action" where
  "call eff answer = (\<lambda>db. (answer, db, [eff]))"

definition stripe_paymentIntents_create :: "Env \<Rightarrow> PaymentIntentCreateParams \<Rightarrow> PaymentIntent Action" where
  "stripe_paymentIntents_create env params =
     call (StripePaymentIntentsCreate params) (paymentIntents_create (stripe env) params)"

definition stripe_refunds_create :: "Env \<Rightarrow> RefundCreateParams \<Rightarrow> Refund Action" where
  "stripe_refunds_create env params =
     call (StripeRefundsCreate params) (refunds_create (stripe env) params)"

definition stripe_webhooks_constructEvent :: "Env \<Rightarrow> Buffer \<Rightarrow> string \<Rightarrow> string \<Rightarrow> Event Action" where
  "stripe_webhooks_constructEvent env payload header secret =
     call (StripeWebhooksConstructEvent payload header secret)
       (webhooks_constructEvent (stripe env) payload header secret)"

definition stripe_customers_list :: "Env \<Rightarrow> CustomerListParams \<Rightarrow> StripeCustomer ApiList Action" where
  "stripe_customers_list env params =
     call (StripeCustomersList params) (customers_list (stripe env) params)"

definition stripe_customers_create :: "Env \<Rightarrow> CustomerCreateParams \<Rightarrow> StripeCustomer Action" where
  "stripe_customers_create env params =
     call (StripeCustomersCreate params) (customers_create (stripe env) params)"

definition Logger_warn :: "string \<Rightarrow> string \<Rightarrow> unit Action" where
  "Logger_warn message ctx = call (LoggerWarn message ctx) (Inr ())"

definition Logger_info :: "string \<Rightarrow> string \<Rightarrow> unit Action" where
  "Logger_info message ctx = call (LoggerInfo message ctx) (Inr ())"

text \<open>Modelled from the spec: the repository calls of the persistence accessor.
  \<open>loadCustomer\<close> and \<open>loadOrder\<close> build the entity of a row; \<open>findOneOrder\<close> is
  \<^verbatim>\<open>getRepository(Order).findOne(id, { relations })\<close>, which loads the customer of the
  order when \<^verbatim>\<open>'customer'\<close> is among the relations; \<open>saveCustomer\<close> is
  \<^verbatim>\<open>getRepository(ctx, Customer).save(customer, { reload })\<close>, which writes the row of
  the entity's id.\<close>

definition loadCustomer :: "Database \<Rightarrow> ID \<Rightarrow> Customer option" where
  "loadCustomer db cid =
     (case customerTable db cid of
        None \<Rightarrow> None
      | Some row \<Rightarrow> Some \<lparr>c_id = cid, c_emailAddress = row_emailAddress row,
          c_firstName = row_firstName row, c_lastName = row_lastName row,
          c_customFields = row_customFields row\<rparr>)"

definition loadOrder :: "Database \<Rightarrow> ID \<Rightarrow> string list \<Rightarrow> Order option" where
  "loadOrder db oid relations =
     (case orderTable db oid of
        None \<Rightarrow> None
      | Some row \<Rightarrow> Some \<lparr>o_id = oid, o_code = row_code row,
          o_currencyCode = row_currencyCode row, o_totalWithTax = row_totalWithTax row,
          o_customer =
            (if ''customer'' \<in> set relations
             then (case row_customerId row of None \<Rightarrow> None | Some cid \<Rightarrow> loadCustomer db cid)
             else None)\<rparr>)"

definition findOneOrder :: "ID \<Rightarrow> string list \<Rightarrow> Order option Action" where
  "findOneOrder oid relations = (\<lambda>db.
     (Inr (loadOrder db oid relations), db, [RepoFindOneOrder oid relations]))"

definition customerRow :: "Customer \<Rightarrow> CustomerRow" where
  "customerRow c = \<lparr>row_emailAddress = c_emailAddress c, row_firstName = c_firstName c,
     row_lastName = c_lastName c, row_customFields = c_customFields c\<rparr>"

definition saveCustomer :: "Customer \<Rightarrow> bool \<Rightarrow> unit Action" where
  "saveCustomer c reload = (\<lambda>db.
     (Inr (), db\<lparr>customerTable := (customerTable db)(c_id c := Some (customerRow c))\<rparr>,
      [RepoSaveCustomer c reload]))"

subsection \<open>JavaScript values\<close>

text \<open>Truthiness of a \<^verbatim>\<open>string | undefined | null\<close>: absent values and the empty string
  are falsy.\<close>

fun truthy :: "string option \<Rightarrow> bool" where
  "truthy None = False"
| "truthy (Some s) = (s \<noteq> [])"

text \<open>
  A JavaScript \<^verbatim>\<open>number\<close> is an IEEE 754 double. The model holds the value of a
  finite number as a rational. \<open>ilog2 x\<close> is the binary exponent of a positive \<open>x\<close>
  (\<open>2 ^ ilog2 x \<le> x < 2 ^ (ilog2 x + 1)\<close>), \<open>roundTiesToEven\<close> the nearest integer with a
  tie going to the even one, and \<open>roundToDouble x\<close> the double nearest to \<open>x\<close>: the
  nearest multiple of \<open>2 ^ (ilog2 \<bar>x\<bar> - 52)\<close>, which leaves 53 significant bits. It
  is the rounding of every arithmetic operation, for results in the normal range (from
  \<open>2 ^ - 1022\<close> up to, not including, \<open>2 ^ 1024\<close>); the quotient of an integer-valued
  number by 100 is zero or in that range. \<open>isDouble x\<close> says that \<open>x\<close> is the value of a
  number.
\<close>

definition ilog2 :: "rat \<Rightarrow> int" where
  "ilog2 x = (if 1 \<le> x then bitlen \<lfloor>x\<rfloor> - 1 else - bitlen (\<lceil>1 / x\<rceil> - 1))"

definition roundTiesToEven :: "rat \<Rightarrow> int" where
  "roundTiesToEven y =
     (let f = \<lfloor>y\<rfloor>; r = y - of_int f
      in if r < 1 / 2 then f else if 1 / 2 < r then f + 1 else if even f then f else f + 1)"

definition roundToDouble :: "rat \<Rightarrow> rat" where
  "roundToDouble x =
     (if x = 0 then 0
      else let ulp = power_int 2 (ilog2 \<bar>x\<bar> - 52)
           in of_int (roundTiesToEven (x / ulp)) * ulp)"

definition isDouble :: "rat \<Rightarrow> bool" where
  "isDouble x = (roundToDouble x = x \<and> \<bar>x\<bar> < 2 ^ 1024)"

text \<open>The operator \<^verbatim>\<open>/\<close> on two numbers: the exact quotient, rounded to a double.\<close>

definition Number_divide :: "rat \<Rightarrow> rat \<Rightarrow> rat" where
  "Number_divide x y = roundToDouble (x / y)"

text \<open>\<^verbatim>\<open>Math.round\<close>: the nearest integer, a tie going towards plus infinity. For a
  double the result is again a double, so no rounding follows.\<close>

definition Math_round :: "rat \<Rightarrow> int" where
  "Math_round x = \<lfloor>x + 1 / 2\<rfloor>"

text \<open>\<^verbatim>\<open>String.prototype.toLowerCase\<close> on the ASCII letters of a currency code.\<close>

definition toLowerCase_char :: "char \<Rightarrow> char" where
  "toLowerCase_char c =
     (let n = (of_char c :: nat) in if 65 \<le> n \<and> n \<le> 90 then char_of (n + 32) else c)"

definition toLowerCase :: "string \<Rightarrow> string" where
  "toLowerCase s = map toLowerCase_char s"

subsection \<open>The methods of the service\<close>

definition createRefund :: "Env \<Rightarrow> string \<Rightarrow> int \<Rightarrow> RefundResult Action" where
  "createRefund env paymentIntentId amt =
     tryCatch
       (andThen (stripe_refunds_create env \<lparr>payment_intent = paymentIntentId, r_amount = amt\<rparr>)
          (\<lambda>refund. returns (RefundValue refund)))
       (\<lambda>e. returns (ErrorValue e))"

definition constructEventFromPayload :: "Env \<Rightarrow> Buffer \<Rightarrow> string \<Rightarrow> Event Action" where
  "constructEventFromPayload env payload signature =
     stripe_webhooks_constructEvent env payload signature (webhookSigningSecret (options env))"

definition currencyHasFractionPart :: "Env \<Rightarrow> CurrencyCode \<Rightarrow> bool" where
  "currencyHasFractionPart env currencyCode =
     (let parts = formatToParts env currencyCode (12345 / 100);
          hasFractionPart = (find (\<lambda>p. p_type p = ''fraction'') parts \<noteq> None)
      in hasFractionPart)"

definition getStripeCustomerId :: "Env \<Rightarrow> RequestContext \<Rightarrow> Order \<Rightarrow> string option Action" where
  "getStripeCustomerId env ctx activeOrder =
     andThen (findOneOrder (o_id activeOrder) [''customer''])
       (\<lambda>order.
          case order of
            None \<Rightarrow> returns None
          | Some ord \<Rightarrow>
              (case o_customer ord of
                 None \<Rightarrow> returns None
               | Some cust \<Rightarrow>
                   if truthy (stripeCustomerId (c_customFields cust))
                   then returns (stripeCustomerId (c_customFields cust))
                   else
                     andThen (stripe_customers_list env \<lparr>l_email = c_emailAddress cust\<rparr>)
                       (\<lambda>stripeCustomers.
                          andThen
                            (if length (data stripeCustomers) > 0
                             then returns (sc_id (data stripeCustomers ! 0))
                             else
                               andThen
                                 (stripe_customers_create env
                                    \<lparr>email = c_emailAddress cust,
                                     name = c_firstName cust @ '' '' @ c_lastName cust\<rparr>)
                                 (\<lambda>newStripeCustomer.
                                    andThen
                                      (Logger_info
                                         (''Created Stripe Customer record for customerId '' @ c_id cust)
                                         (loggerCtx env))
                                      (\<lambda>_. returns (sc_id newStripeCustomer))))
                            (\<lambda>newId.
                               andThen
                                 (saveCustomer
                                    (cust\<lparr>c_customFields :=
                                       (c_customFields cust)\<lparr>stripeCustomerId := Some newId\<rparr>\<rparr>)
                                    False)
                                 (\<lambda>_. returns (Some newId))))))"

text \<open>The amount of the payment-intent request (\<^verbatim>\<open>amountInMinorUnits\<close>):
  \<^verbatim>\<open>order.totalWithTax / 100\<close> is a division of numbers.\<close>

definition amountInMinorUnits :: "Env \<Rightarrow> Order \<Rightarrow> int" where
  "amountInMinorUnits env order =
     (if currencyHasFractionPart env (o_currencyCode order)
      then o_totalWithTax order
      else Math_round (Number_divide (of_int (o_totalWithTax order)) 100))"

definition createPaymentIntent :: "Env \<Rightarrow> RequestContext \<Rightarrow> Order \<Rightarrow> string option Action" where
  "createPaymentIntent env ctx order =
     andThen
       (if storeCustomersInStripe (options env) \<and> truthy (activeUserId ctx)
        then getStripeCustomerId env ctx order
        else returns None)
       (\<lambda>customerId.
          andThen
            (stripe_paymentIntents_create env
               \<lparr>amount = amountInMinorUnits env order,
                currency = toLowerCase (o_currencyCode order),
                customer = customerId,
                automatic_payment_methods = \<lparr>enabled = True\<rparr>,
                metadata = \<lparr>channelToken = token (channel ctx), orderId = o_id order,
                  orderCode = o_code order\<rparr>\<rparr>)
            (\<lambda>intent.
               andThen
                 (if \<not> truthy (client_secret intent)
                  then Logger_warn
                         (''Payment intent creation for order '' @ o_code order
                            @ '' did not return client secret'')
                         (loggerCtx env)
                  else returns ())
                 (\<lambda>_. returns (client_secret intent))))"

subsection \<open>The resolution step by step\<close>

text \<open>
  \<^verbatim>\<open>getStripeCustomerId\<close> awaits the repository and the gateway several times, and other
  requests can run while it waits. To speak of what it does after such a pause, its
  body is cut at two of the awaits: \<open>afterOrderFetch\<close> is the method from the test of
  the fetched order on, and \<open>afterCustomersList\<close> the method from the answer of
  \<^verbatim>\<open>customers.list\<close> on, holding the customer entity read before.
\<close>

definition afterCustomersList ::
  "Env \<Rightarrow> Customer \<Rightarrow> StripeCustomer ApiList \<Rightarrow> string option Action" where
  "afterCustomersList env cust stripeCustomers =
     andThen
       (if length (data stripeCustomers) > 0
        then returns (sc_id (data stripeCustomers ! 0))
        else
          andThen
            (stripe_customers_create env
               \<lparr>email = c_emailAddress cust,
                name = c_firstName cust @ '' '' @ c_lastName cust\<rparr>)
            (\<lambda>newStripeCustomer.
               andThen
                 (Logger_info
                    (''Created Stripe Customer record for customerId '' @ c_id cust)
                    (loggerCtx env))
                 (\<lambda>_. returns (sc_id newStripeCustomer))))
       (\<lambda>newId.
          andThen
            (saveCustomer
               (cust\<lparr>c_customFields :=
                  (c_customFields cust)\<lparr>stripeCustomerId := Some newId\<rparr>\<rparr>)
               False)
            (\<lambda>_. returns (Some newId)))"

definition afterOrderFetch :: "Env \<Rightarrow> Order option \<Rightarrow> string option Action" where
  "afterOrderFetch env order =
     (case order of
        None \<Rightarrow> returns None
      | Some ord \<Rightarrow>
          (case o_customer ord of
             None \<Rightarrow> returns None
           | Some cust \<Rightarrow>
               if truthy (stripeCustomerId (c_customFields cust))
               then returns (stripeCustomerId (c_customFields cust))
               else
                 andThen (stripe_customers_list env \<lparr>l_email = c_emailAddress cust\<rparr>)
                   (afterCustomersList env cust)))"

text \<open>A call of one of the methods of the service, and the database after a call, or
  after a list of calls that run one after the other, each to its end.\<close>

datatype Call =
    CallGetStripeCustomerId Env RequestContext Order
  | CallCreatePaymentIntent Env RequestContext Order
  | CallCreateRefund Env string int
  | CallConstructEventFromPayload Env Buffer string

fun dbAfter :: "Call \<Rightarrow> Database \<Rightarrow> Database" where
  "dbAfter (CallGetStripeCustomerId env ctx order) db = dbOf (getStripeCustomerId env ctx order db)"
| "dbAfter (CallCreatePaymentIntent env ctx order) db = dbOf (createPaymentIntent env ctx order db)"
| "dbAfter (CallCreateRefund env paymentIntentId amt) db = dbOf (createRefund env paymentIntentId amt db)"
| "dbAfter (CallConstructEventFromPayload env payload signature) db
     = dbOf (constructEventFromPayload env payload signature db)"

fun dbAfterAll :: "Call list \<Rightarrow> Database \<Rightarrow> Database" where
  "dbAfterAll [] db = db"
| "dbAfterAll (c # cs) db = dbAfterAll cs (dbAfter c db)"

subsection \<open>Reading the effects\<close>

text \<open>The requests of one kind among the effects of a run, in order.\<close>

fun paymentIntentRequests :: "Effect list \<Rightarrow> PaymentIntentCreateParams list" where
  "paymentIntentRequests [] = []"
| "paymentIntentRequests (StripePaymentIntentsCreate p # es) = p # paymentIntentRequests es"
| "paymentIntentRequests (_ # es) = paymentIntentRequests es"

fun customerCreateRequests :: "Effect list \<Rightarrow> CustomerCreateParams list" where
  "customerCreateRequests [] = []"
| "customerCreateRequests (StripeCustomersCreate p # es) = p # customerCreateRequests es"
| "customerCreateRequests (_ # es) = customerCreateRequests es"

fun customerListRequests :: "Effect list \<Rightarrow> CustomerListParams list" where
  "customerListRequests [] = []"
| "customerListRequests (StripeCustomersList p # es) = p # customerListRequests es"
| "customerListRequests (_ # es) = customerListRequests es"

text \<open>The saves of customers, each with its \<^verbatim>\<open>reload\<close> option.\<close>

fun customerSaves :: "Effect list \<Rightarrow> (Customer \<times> bool) list" where
  "customerSaves [] = []"
| "customerSaves (RepoSaveCustomer c reload # es) = (c, reload) # customerSaves es"
| "customerSaves (_ # es) = customerSaves es"

fun orderFetches :: "Effect list \<Rightarrow> (ID \<times> string list) list" where
  "orderFetches [] = []"
| "orderFetches (RepoFindOneOrder oid rels # es) = (oid, rels) # orderFetches es"
| "orderFetches (_ # es) = orderFetches es"

fun infoTraces :: "Effect list \<Rightarrow> (string \<times> string) list" where
  "infoTraces [] = []"
| "infoTraces (LoggerInfo m c # es) = (m, c) # infoTraces es"
| "infoTraces (_ # es) = infoTraces es"

fun warnings :: "Effect list \<Rightarrow> (string \<times> string) list" where
  "warnings [] = []"
| "warnings (LoggerWarn m c # es) = (m, c) # warnings es"
| "warnings (_ # es) = warnings es"

text \<open>Names for three pieces of \<^verbatim>\<open>createPaymentIntent\<close>, used to state its
  properties: the request it builds for a customer id, the warning it logs, and its
  first statement, which resolves the customer id when the option is set and the
  context has a user.\<close>

abbreviation intentRequest :: "Env \<Rightarrow> RequestContext \<Rightarrow> Order \<Rightarrow> string option \<Rightarrow> PaymentIntentCreateParams" where
  "intentRequest env ctx order customerId \<equiv>
     \<lparr>amount = amountInMinorUnits env order,
      currency = toLowerCase (o_currencyCode order),
      customer = customerId,
      automatic_payment_methods = \<lparr>enabled = True\<rparr>,
      metadata = \<lparr>channelToken = token (channel ctx), orderId = o_id order,
        orderCode = o_code order\<rparr>\<rparr>"

abbreviation noSecretWarning :: "Env \<Rightarrow> Order \<Rightarrow> Effect" where
  "noSecretWarning env order \<equiv>
     LoggerWarn (''Payment intent creation for order '' @ o_code order
        @ '' did not return client secret'') (loggerCtx env)"

abbreviation customerStep :: "Env \<Rightarrow> RequestContext \<Rightarrow> Order \<Rightarrow> string option Action" where
  "customerStep env ctx order \<equiv>
     (if storeCustomersInStripe (options env) \<and> truthy (activeUserId ctx)
      then getStripeCustomerId env ctx order
      else returns None)"

subsection \<open>A sample environment and database\<close>

text \<open>Concrete collaborators on which the theorems are instantiated. The formatter
  answers as an \<^verbatim>\<open>en-US\<close> engine does for \<^verbatim>\<open>123.45\<close>: the yen has no fraction part.\<close>

definition sampleFormat :: "CurrencyCode \<Rightarrow> rat \<Rightarrow> NumberFormatPart list" where
  "sampleFormat c x =
     (if c = ''JPY''
      then [\<lparr>p_type = ''currency'', p_value = [CHR 0xC2, CHR 0xA5]\<rparr>,
            \<lparr>p_type = ''integer'', p_value = ''123''\<rparr>]
      else [\<lparr>p_type = ''currency'', p_value = ''$''\<rparr>,
            \<lparr>p_type = ''integer'', p_value = ''123''\<rparr>,
            \<lparr>p_type = ''decimal'', p_value = ''.''\<rparr>,
            \<lparr>p_type = ''fraction'', p_value = ''45''\<rparr>])"

definition sampleStripe :: Stripe where
  "sampleStripe =
     \<lparr>paymentIntents_create = (\<lambda>p.
        if orderCode (metadata p) = ''DECLINED''
        then Inl (Thrown ''StripeCardError'' ''declined'')
        else Inr \<lparr>pi_id = ''pi_1'',
          client_secret =
            (if orderCode (metadata p) = ''NOSECRET'' then None else Some ''pi_1_secret'')\<rparr>),
      refunds_create = (\<lambda>p.
        if payment_intent p = ''pi_1''
        then Inr \<lparr>re_id = ''re_1'', re_amount = r_amount p\<rparr>
        else Inl (Thrown ''StripeInvalidRequestError'' ''No such payment_intent'')),
      webhooks_constructEvent = (\<lambda>payload header secret.
        if header = ''t=1,v1=ok'' \<and> secret = ''whsec_1''
        then Inr \<lparr>ev_id = ''evt_1'', ev_type = payload\<rparr>
        else Inl (Thrown ''StripeSignatureVerificationError'' ''No signatures found'')),
      customers_list = (\<lambda>p.
        if l_email p = ''known@example.com''
        then Inr \<lparr>data = [\<lparr>sc_id = ''cus_A'', sc_email = ''known@example.com''\<rparr>,
                          \<lparr>sc_id = ''cus_B'', sc_email = ''known@example.com''\<rparr>]\<rparr>
        else Inr \<lparr>data = []\<rparr>),
      customers_create = (\<lambda>p. Inr \<lparr>sc_id = ''cus_new'', sc_email = email p\<rparr>)\<rparr>"

definition sampleEnv :: "bool \<Rightarrow> Env" where
  "sampleEnv store =
     \<lparr>options = \<lparr>apiKey = ''sk_test'', webhookSigningSecret = ''whsec_1'',
        storeCustomersInStripe = store\<rparr>,
      stripe = sampleStripe, loggerCtx = ''StripePlugin'', formatToParts = sampleFormat\<rparr>"

text \<open>The same gateway a moment later: a further create-customer call makes a further
  customer.\<close>

definition sampleEnvLater :: Env where
  "sampleEnvLater =
     (sampleEnv True)\<lparr>stripe := sampleStripe
        \<lparr>customers_create := (\<lambda>p. Inr \<lparr>sc_id = ''cus_dup'', sc_email = email p\<rparr>)\<rparr>\<rparr>"

definition sampleCustomerRow :: "string \<Rightarrow> string option \<Rightarrow> CustomerRow" where
  "sampleCustomerRow mail cached =
     \<lparr>row_emailAddress = mail, row_firstName = ''Ada'', row_lastName = ''Lovelace'',
      row_customFields = \<lparr>stripeCustomerId = cached\<rparr>\<rparr>"

definition sampleCustomer :: "ID \<Rightarrow> string \<Rightarrow> string option \<Rightarrow> Customer" where
  "sampleCustomer cid mail cached =
     \<lparr>c_id = cid, c_emailAddress = mail, c_firstName = ''Ada'', c_lastName = ''Lovelace'',
      c_customFields = \<lparr>stripeCustomerId = cached\<rparr>\<rparr>"

definition sampleOrderRow :: "ID option \<Rightarrow> OrderRow" where
  "sampleOrderRow cid =
     \<lparr>row_code = ''ORD'', row_currencyCode = ''USD'', row_totalWithTax = 1999,
      row_customerId = cid\<rparr>"

text \<open>Order \<open>o1\<close> belongs to a customer with a cached id, \<open>o2\<close> to one whose email the
  gateway knows, \<open>o3\<close> to one it does not know, \<open>o4\<close> has no customer.\<close>

definition sampleDb :: Database where
  "sampleDb =
     \<lparr>orderTable = [''o1'' \<mapsto> sampleOrderRow (Some ''c1''), ''o2'' \<mapsto> sampleOrderRow (Some ''c2''),
        ''o3'' \<mapsto> sampleOrderRow (Some ''c3''), ''o4'' \<mapsto> sampleOrderRow None],
      customerTable = [''c1'' \<mapsto> sampleCustomerRow ''cached@example.com'' (Some ''cus_C''),
        ''c2'' \<mapsto> sampleCustomerRow ''known@example.com'' None,
        ''c3'' \<mapsto> sampleCustomerRow ''new@example.com'' None]\<rparr>"

definition sampleOrder :: "ID \<Rightarrow> string \<Rightarrow> CurrencyCode \<Rightarrow> int \<Rightarrow> Order" where
  "sampleOrder oid c cur amt =
     \<lparr>o_id = oid, o_code = c, o_currencyCode = cur, o_totalWithTax = amt, o_customer = None\<rparr>"

definition sampleCtx :: "ID option \<Rightarrow> RequestContext" where
  "sampleCtx user = \<lparr>activeUserId = user, channel = \<lparr>token = ''default-channel''\<rparr>\<rparr>"

section \<open>Properties\<close>

lemmas action_defs =
  returns_def andThen_def tryCatch_def call_def
  stripe_paymentIntents_create_def stripe_refunds_create_def
  stripe_webhooks_constructEvent_def stripe_customers_list_def
  stripe_customers_create_def Logger_warn_def Logger_info_def
  findOneOrder_def saveCustomer_def

lemmas run_defs =
  createPaymentIntent_def getStripeCustomerId_def amountInMinorUnits_def
  currencyHasFractionPart_def createRefund_def constructEventFromPayload_def
  loadOrder_def loadCustomer_def customerRow_def

lemmas number_defs = Math_round_def Number_divide_def

lemmas sample_defs =
  sampleFormat_def sampleStripe_def sampleEnv_def sampleCustomerRow_def sampleCustomer_def
  sampleOrderRow_def sampleDb_def sampleOrder_def sampleCtx_def sampleEnvLater_def

subsection \<open>Helper facts\<close>

lemma paymentIntentRequests_append:
  "paymentIntentRequests (es @ fs) = paymentIntentRequests es @ paymentIntentRequests fs"
  by (induction es rule: paymentIntentRequests.induct) simp_all

lemma loadCustomer_id: "loadCustomer db cid = Some cust \<Longrightarrow> c_id cust = cid"
  by (auto simp: loadCustomer_def split: option.splits)

lemma loadCustomer_row:
  "loadCustomer db cid = Some cust \<Longrightarrow> customerTable db cid = Some (customerRow cust)"
  by (auto simp: loadCustomer_def customerRow_def split: option.splits)

lemma loadOrder_customer:
  "loadOrder db oid [''customer''] = Some ord \<Longrightarrow> o_customer ord = Some cust \<Longrightarrow>
   loadCustomer db (c_id cust) = Some cust"
proof -
  assume a: "loadOrder db oid [''customer''] = Some ord" "o_customer ord = Some cust"
  then obtain cid where "loadCustomer db cid = Some cust"
    by (auto simp: loadOrder_def split: option.splits)
  then show ?thesis using loadCustomer_id by fastforce
qed

lemma resolve_no_order:
  assumes "loadOrder db (o_id activeOrder) [''customer''] = None"
  shows "getStripeCustomerId env ctx activeOrder db
         = (Inr None, db, [RepoFindOneOrder (o_id activeOrder) [''customer'']])"
  using assms by (simp add: getStripeCustomerId_def action_defs)

lemma resolve_no_customer:
  assumes "loadOrder db (o_id activeOrder) [''customer''] = Some ord" "o_customer ord = None"
  shows "getStripeCustomerId env ctx activeOrder db
         = (Inr None, db, [RepoFindOneOrder (o_id activeOrder) [''customer'']])"
  using assms by (simp add: getStripeCustomerId_def action_defs)

lemma resolve_cached:
  assumes "loadOrder db (o_id activeOrder) [''customer''] = Some ord" "o_customer ord = Some cust"
    "truthy (stripeCustomerId (c_customFields cust))"
  shows "getStripeCustomerId env ctx activeOrder db
         = (Inr (stripeCustomerId (c_customFields cust)), db,
            [RepoFindOneOrder (o_id activeOrder) [''customer'']])"
  using assms by (simp add: getStripeCustomerId_def action_defs)

lemma resolve_list_throws:
  assumes "loadOrder db (o_id activeOrder) [''customer''] = Some ord" "o_customer ord = Some cust"
    "\<not> truthy (stripeCustomerId (c_customFields cust))"
    "customers_list (stripe env) \<lparr>l_email = c_emailAddress cust\<rparr> = Inl e"
  shows "getStripeCustomerId env ctx activeOrder db
         = (Inl e, db,
            [RepoFindOneOrder (o_id activeOrder) [''customer''],
             StripeCustomersList \<lparr>l_email = c_emailAddress cust\<rparr>])"
  using assms by (simp add: getStripeCustomerId_def action_defs)

lemma resolve_found:
  assumes "loadOrder db (o_id activeOrder) [''customer''] = Some ord" "o_customer ord = Some cust"
    "\<not> truthy (stripeCustomerId (c_customFields cust))"
    "customers_list (stripe env) \<lparr>l_email = c_emailAddress cust\<rparr> = Inr found"
    "data found = m # ms"
  shows "getStripeCustomerId env ctx activeOrder db
         = (Inr (Some (sc_id m)),
            db\<lparr>customerTable := (customerTable db)(c_id cust := Some (customerRow
               (cust\<lparr>c_customFields := (c_customFields cust)\<lparr>stripeCustomerId := Some (sc_id m)\<rparr>\<rparr>)))\<rparr>,
            [RepoFindOneOrder (o_id activeOrder) [''customer''],
             StripeCustomersList \<lparr>l_email = c_emailAddress cust\<rparr>,
             RepoSaveCustomer
               (cust\<lparr>c_customFields := (c_customFields cust)\<lparr>stripeCustomerId := Some (sc_id m)\<rparr>\<rparr>)
               False])"
  using assms by (simp add: getStripeCustomerId_def action_defs)

lemma resolve_create_throws:
  assumes "loadOrder db (o_id activeOrder) [''customer''] = Some ord" "o_customer ord = Some cust"
    "\<not> truthy (stripeCustomerId (c_customFields cust))"
    "customers_list (stripe env) \<lparr>l_email = c_emailAddress cust\<rparr> = Inr found"
    "data found = []"
    "customers_create (stripe env)
       \<lparr>email = c_emailAddress cust, name = c_firstName cust @ '' '' @ c_lastName cust\<rparr> = Inl e"
  shows "getStripeCustomerId env ctx activeOrder db
         = (Inl e, db,
            [RepoFindOneOrder (o_id activeOrder) [''customer''],
             StripeCustomersList \<lparr>l_email = c_emailAddress cust\<rparr>,
             StripeCustomersCreate
               \<lparr>email = c_emailAddress cust, name = c_firstName cust @ '' '' @ c_lastName cust\<rparr>])"
  using assms by (simp add: getStripeCustomerId_def action_defs)

lemma resolve_created:
  assumes "loadOrder db (o_id activeOrder) [''customer''] = Some ord" "o_customer ord = Some cust"
    "\<not> truthy (stripeCustomerId (c_customFields cust))"
    "customers_list (stripe env) \<lparr>l_email = c_emailAddress cust\<rparr> = Inr found"
    "data found = []"
    "customers_create (stripe env)
       \<lparr>email = c_emailAddress cust, name = c_firstName cust @ '' '' @ c_lastName cust\<rparr> = Inr created"
  shows "getStripeCustomerId env ctx activeOrder db
         = (Inr (Some (sc_id created)),
            db\<lparr>customerTable := (customerTable db)(c_id cust := Some (customerRow
               (cust\<lparr>c_customFields := (c_customFields cust)\<lparr>stripeCustomerId := Some (sc_id created)\<rparr>\<rparr>)))\<rparr>,
            [RepoFindOneOrder (o_id activeOrder) [''customer''],
             StripeCustomersList \<lparr>l_email = c_emailAddress cust\<rparr>,
             StripeCustomersCreate
               \<lparr>email = c_emailAddress cust, name = c_firstName cust @ '' '' @ c_lastName cust\<rparr>,
             LoggerInfo (''Created Stripe Customer record for customerId '' @ c_id cust) (loggerCtx env),
             RepoSaveCustomer
               (cust\<lparr>c_customFields := (c_customFields cust)\<lparr>stripeCustomerId := Some (sc_id created)\<rparr>\<rparr>)
               False])"
  using assms by (simp add: getStripeCustomerId_def action_defs)

text \<open>The paths of the resolution, as a case rule.\<close>

lemma resolve_cases:
  obtains (absent) "getStripeCustomerId env ctx activeOrder db
         = (Inr None, db, [RepoFindOneOrder (o_id activeOrder) [''customer'']])"
  | (cached) ord cust where "loadOrder db (o_id activeOrder) [''customer''] = Some ord" "o_customer ord = Some cust"
    "truthy (stripeCustomerId (c_customFields cust))"
  | (list_throws) ord cust e where "loadOrder db (o_id activeOrder) [''customer''] = Some ord" "o_customer ord = Some cust"
    "\<not> truthy (stripeCustomerId (c_customFields cust))"
    "customers_list (stripe env) \<lparr>l_email = c_emailAddress cust\<rparr> = Inl e"
  | (found) ord cust found m ms where "loadOrder db (o_id activeOrder) [''customer''] = Some ord" "o_customer ord = Some cust"
    "\<not> truthy (stripeCustomerId (c_customFields cust))"
    "customers_list (stripe env) \<lparr>l_email = c_emailAddress cust\<rparr> = Inr found"
    "data found = m # ms"
  | (create_throws) ord cust found e where "loadOrder db (o_id activeOrder) [''customer''] = Some ord" "o_customer ord = Some cust"
    "\<not> truthy (stripeCustomerId (c_customFields cust))"
    "customers_list (stripe env) \<lparr>l_email = c_emailAddress cust\<rparr> = Inr found"
    "data found = []"
    "customers_create (stripe env)
       \<lparr>email = c_emailAddress cust, name = c_firstName cust @ '' '' @ c_lastName cust\<rparr> = Inl e"
  | (created) ord cust found created where "loadOrder db (o_id activeOrder) [''customer''] = Some ord" "o_customer ord = Some cust"
    "\<not> truthy (stripeCustomerId (c_customFields cust))"
    "customers_list (stripe env) \<lparr>l_email = c_emailAddress cust\<rparr> = Inr found"
    "data found = []"
    "customers_create (stripe env)
       \<lparr>email = c_emailAddress cust, name = c_firstName cust @ '' '' @ c_lastName cust\<rparr> = Inr created"
proof (cases "loadOrder db (o_id activeOrder) [''customer'']")
  case None
  then show ?thesis using absent resolve_no_order by blast
next
  case (Some ord)
  note ord = this
  show ?thesis
  proof (cases "o_customer ord")
    case None
    then show ?thesis using absent resolve_no_customer ord by blast
  next
    case (Some cust)
    note cust = this
    show ?thesis
    proof (cases "truthy (stripeCustomerId (c_customFields cust))")
      case True
      then show ?thesis using cached ord cust by blast
    next
      case False
      note falsy = this
      show ?thesis
      proof (cases "customers_list (stripe env) \<lparr>l_email = c_emailAddress cust\<rparr>")
        case (Inl e)
        then show ?thesis using list_throws ord cust falsy by blast
      next
        case (Inr lst)
        note lst = this
        show ?thesis
        proof (cases "data lst")
          case Nil
          show ?thesis
          proof (cases "customers_create (stripe env)
              \<lparr>email = c_emailAddress cust, name = c_firstName cust @ '' '' @ c_lastName cust\<rparr>")
            case (Inl e)
            then show ?thesis using create_throws ord cust falsy lst Nil by blast
          next
            case (Inr nc)
            then show ?thesis using created ord cust falsy lst Nil by blast
          qed
        next
          case (Cons m ms)
          then show ?thesis using found ord cust falsy lst by blast
        qed
      qed
    qed
  qed
qed

lemma resolve_no_paymentIntentRequests:
  "paymentIntentRequests (effectsOf (getStripeCustomerId env ctx activeOrder db)) = []"
proof (cases rule: resolve_cases [of env ctx activeOrder db])
  case absent
  then show ?thesis by simp
next
  case (cached ord cust)
  then show ?thesis by (simp add: resolve_cached)
next
  case (list_throws ord cust e)
  then show ?thesis by (simp add: resolve_list_throws)
next
  case (found ord cust found m ms)
  then show ?thesis by (simp add: resolve_found)
next
  case (create_throws ord cust found e)
  then show ?thesis by (simp add: resolve_create_throws)
next
  case (created ord cust found created)
  then show ?thesis by (simp add: resolve_created)
qed

lemma resolve_keeps_cached:
  assumes "customerTable db k = Some row" "truthy (stripeCustomerId (row_customFields row))"
  shows "customerTable (dbOf (getStripeCustomerId env ctx activeOrder db)) k = Some row"
proof -
  have differs: "c_id cust \<noteq> k"
    if "loadOrder db (o_id activeOrder) [''customer''] = Some ord" "o_customer ord = Some cust"
      "\<not> truthy (stripeCustomerId (c_customFields cust))" for ord cust
  proof
    assume "c_id cust = k"
    with loadCustomer_row [OF loadOrder_customer [OF that(1,2)]] assms(1)
    have "row = customerRow cust" by simp
    with assms(2) that(3) show False by (simp add: customerRow_def)
  qed
  show ?thesis
  proof (cases rule: resolve_cases [of env ctx activeOrder db])
    case absent
    then show ?thesis using assms by simp
  next
    case (cached ord cust)
    then show ?thesis using assms by (simp add: resolve_cached)
  next
    case (list_throws ord cust e)
    then show ?thesis using assms by (simp add: resolve_list_throws)
  next
    case (found ord cust found m ms)
    then show ?thesis using assms differs [OF found(1-3)] by (simp add: resolve_found)
  next
    case (create_throws ord cust found e)
    then show ?thesis using assms by (simp add: resolve_create_throws)
  next
    case (created ord cust found created)
    then show ?thesis using assms differs [OF created(1-3)] by (simp add: resolve_created)
  qed
qed

lemma create_after_thrown:
  assumes "customerStep env ctx order db = (Inl e, db1, es1)"
  shows "createPaymentIntent env ctx order db = (Inl e, db1, es1)"
  using assms by (simp add: createPaymentIntent_def andThen_def)

lemma create_gateway_throws:
  assumes "customerStep env ctx order db = (Inr cid, db1, es1)"
    "paymentIntents_create (stripe env) (intentRequest env ctx order cid) = Inl e"
  shows "createPaymentIntent env ctx order db
         = (Inl e, db1, es1 @ [StripePaymentIntentsCreate (intentRequest env ctx order cid)])"
  using assms by (simp add: createPaymentIntent_def action_defs)

lemma create_gateway_answers:
  assumes "customerStep env ctx order db = (Inr cid, db1, es1)"
    "paymentIntents_create (stripe env) (intentRequest env ctx order cid) = Inr intent"
  shows "createPaymentIntent env ctx order db
         = (Inr (client_secret intent), db1,
            es1 @ StripePaymentIntentsCreate (intentRequest env ctx order cid)
              # (if truthy (client_secret intent) then [] else [noSecretWarning env order]))"
  using assms by (simp add: createPaymentIntent_def action_defs)

lemma customerStep_no_paymentIntentRequests:
  "paymentIntentRequests (effectsOf (customerStep env ctx order db)) = []"
  by (simp add: resolve_no_paymentIntentRequests returns_def)

lemma create_cases:
  obtains (resolution_throws) e db1 es1 where
      "customerStep env ctx order db = (Inl e, db1, es1)" "paymentIntentRequests es1 = []"
  | (gateway_throws) cid db1 es1 e where
      "customerStep env ctx order db = (Inr cid, db1, es1)" "paymentIntentRequests es1 = []"
      "paymentIntents_create (stripe env) (intentRequest env ctx order cid) = Inl e"
  | (gateway_answers) cid db1 es1 intent where
      "customerStep env ctx order db = (Inr cid, db1, es1)" "paymentIntentRequests es1 = []"
      "paymentIntents_create (stripe env) (intentRequest env ctx order cid) = Inr intent"
proof -
  obtain r db1 es1 where step: "customerStep env ctx order db = (r, db1, es1)"
    by (metis prod_cases3)
  have none: "paymentIntentRequests es1 = []"
    using customerStep_no_paymentIntentRequests [of env ctx order db] step by simp
  show ?thesis
  proof (cases r)
    case (Inl e)
    then show ?thesis using resolution_throws step none by blast
  next
    case (Inr cid)
    then show ?thesis
      using gateway_throws gateway_answers step none
      by (cases "paymentIntents_create (stripe env) (intentRequest env ctx order cid)") blast+
  qed
qed

lemma create_requests:
  "paymentIntentRequests (effectsOf (createPaymentIntent env ctx order db)) = []
     \<and> (\<exists>e. resultOf (createPaymentIntent env ctx order db) = Inl e)
   \<or> (\<exists>cid. resultOf (customerStep env ctx order db) = Inr cid
        \<and> paymentIntentRequests (effectsOf (createPaymentIntent env ctx order db))
          = [intentRequest env ctx order cid])"
proof (cases rule: create_cases [of env ctx order db])
  case (resolution_throws e db1 es1)
  then show ?thesis by (simp add: create_after_thrown [OF resolution_throws(1)])
next
  case (gateway_throws cid db1 es1 e)
  then show ?thesis
    by (simp add: create_gateway_throws [OF gateway_throws(1,3)] paymentIntentRequests_append)
next
  case (gateway_answers cid db1 es1 intent)
  then show ?thesis
    by (simp add: create_gateway_answers [OF gateway_answers(1,3)] paymentIntentRequests_append)
qed

lemma create_keeps_cached:
  assumes "customerTable db k = Some row" "truthy (stripeCustomerId (row_customFields row))"
  shows "customerTable (dbOf (createPaymentIntent env ctx order db)) k = Some row"
proof -
  have step: "customerTable (dbOf (customerStep env ctx order db)) k = Some row"
    using assms resolve_keeps_cached [OF assms] by (simp add: returns_def)
  show ?thesis
  proof (cases rule: create_cases [of env ctx order db])
    case (resolution_throws e db1 es1)
    then show ?thesis using step
      by (simp add: create_after_thrown [OF resolution_throws(1)])
  next
    case (gateway_throws cid db1 es1 e)
    then show ?thesis using step
      by (simp add: create_gateway_throws [OF gateway_throws(1,3)])
  next
    case (gateway_answers cid db1 es1 intent)
    then show ?thesis using step
      by (simp add: create_gateway_answers [OF gateway_answers(1,3)])
  qed
qed

lemma Math_round_div_100: "Math_round (of_int t / 100) = (t + 50) div 100"
proof -
  have "(of_int t / 100 + 1 / 2 :: rat) = of_int (t + 50) / of_int 100" by simp
  then show ?thesis unfolding Math_round_def by (simp only: floor_divide_of_int_eq)
qed

lemma Math_round_round: "Math_round x = round x"
  by (simp add: Math_round_def round_def)

lemma create_requests_amount:
  assumes "p \<in> set (paymentIntentRequests (effectsOf (createPaymentIntent env ctx order db)))"
  shows "amount p = amountInMinorUnits env order"
proof -
  from create_requests [of env ctx order db]
  consider "paymentIntentRequests (effectsOf (createPaymentIntent env ctx order db)) = []"
    | cid where "paymentIntentRequests (effectsOf (createPaymentIntent env ctx order db))
          = [intentRequest env ctx order cid]"
    by blast
  then show ?thesis
  proof cases
    case 1
    with assms show ?thesis by simp
  next
    case (2 cid)
    with assms have "p = intentRequest env ctx order cid" by simp
    then show ?thesis by simp
  qed
qed

lemma create_requests_returned:
  assumes "resultOf (createPaymentIntent env ctx order db) = Inr r"
  shows "length (paymentIntentRequests (effectsOf (createPaymentIntent env ctx order db))) = 1"
proof -
  from create_requests [of env ctx order db] assms
  obtain cid where "paymentIntentRequests (effectsOf (createPaymentIntent env ctx order db))
          = [intentRequest env ctx order cid]"
    by fastforce
  then show ?thesis by simp
qed

lemma half_up_split:
  assumes "(t::int) mod 100 = 50"
  obtains q where "t div 100 = q" and "t = 100 * q + 50"
proof -
  have "100 * (t div 100) + t mod 100 = t"
    by (rule mult_div_mod_eq)
  with assms have "t = 100 * (t div 100) + 50"
    by (simp only:)
  then show thesis using that by blast
qed

lemma half_up_div:
  assumes "(t::int) mod 100 = 50"
  shows "(t + 50) div 100 = t div 100 + 1"
proof -
  from assms obtain q where q: "t div 100 = q" "t = 100 * q + 50"
    by (rule half_up_split)
  have "t + 50 = (q + 1) * 100"
    by (simp only: q(2)) (simp add: algebra_simps)
  then have "(t + 50) div 100 = q + 1"
    by (simp only: nonzero_mult_div_cancel_right)
  then show ?thesis
    by (simp only: q(1))
qed

lemma half_up_rat:
  assumes "(t::int) mod 100 = 50"
  shows "rat_of_int (t div 100 + 1) = rat_of_int t / 100 + 1 / 2"
proof -
  from assms obtain q where q: "t div 100 = q" "t = 100 * q + 50"
    by (rule half_up_split)
  have "rat_of_int t = 100 * rat_of_int q + 50"
    by (simp only: q(2) of_int_add of_int_mult of_int_numeral)
  then have quotient: "rat_of_int t / 100 = rat_of_int q + 1 / 2"
    by (simp only: add_divide_distrib)
  have "rat_of_int (q + 1) = (rat_of_int q + 1 / 2) + 1 / 2"
    by simp
  also have "\<dots> = rat_of_int t / 100 + 1 / 2"
    by (simp only: quotient)
  finally show ?thesis
    by (simp only: q(1))
qed

lemma warnings_append: "warnings (es @ fs) = warnings es @ warnings fs"
  by (induction es rule: warnings.induct) simp_all

lemma resolve_no_warnings:
  "warnings (effectsOf (getStripeCustomerId env ctx activeOrder db)) = []"
proof (cases rule: resolve_cases [of env ctx activeOrder db])
  case absent
  then show ?thesis by simp
next
  case (cached ord cust)
  then show ?thesis by (simp add: resolve_cached)
next
  case (list_throws ord cust e)
  then show ?thesis by (simp add: resolve_list_throws)
next
  case (found ord cust found m ms)
  then show ?thesis by (simp add: resolve_found)
next
  case (create_throws ord cust found e)
  then show ?thesis by (simp add: resolve_create_throws)
next
  case (created ord cust found created)
  then show ?thesis by (simp add: resolve_created)
qed

lemma customerStep_no_warnings:
  "warnings (effectsOf (customerStep env ctx order db)) = []"
  by (simp add: resolve_no_warnings returns_def)

lemma createRefund_db: "dbOf (createRefund env pid amt db) = db"
  by (cases "refunds_create (stripe env) \<lparr>payment_intent = pid, r_amount = amt\<rparr>")
     (simp_all add: createRefund_def action_defs)

lemma constructEventFromPayload_run:
  "constructEventFromPayload env payload header db
     = (webhooks_constructEvent (stripe env) payload header (webhookSigningSecret (options env)),
        db,
        [StripeWebhooksConstructEvent payload header (webhookSigningSecret (options env))])"
  by (simp add: constructEventFromPayload_def action_defs)

lemma create_without_resolution:
  assumes "\<not> storeCustomersInStripe (options env) \<or> \<not> truthy (activeUserId ctx)"
  shows "customerStep env ctx order db = (Inr None, db, [])"
  using assms by (auto simp: returns_def)

lemma create_run_shape:
  assumes "customerStep env ctx order db = (Inr cid, db1, es1)"
  shows "dbOf (createPaymentIntent env ctx order db) = db1
    \<and> (\<exists>ws. effectsOf (createPaymentIntent env ctx order db)
          = es1 @ StripePaymentIntentsCreate (intentRequest env ctx order cid) # ws
        \<and> (ws = [] \<or> ws = [noSecretWarning env order]))
    \<and> (\<forall>intent. paymentIntents_create (stripe env) (intentRequest env ctx order cid) = Inr intent
          \<longrightarrow> resultOf (createPaymentIntent env ctx order db) = Inr (client_secret intent))"
proof (cases "paymentIntents_create (stripe env) (intentRequest env ctx order cid)")
  case (Inl e)
  show ?thesis
    by (simp add: create_gateway_throws [OF assms Inl] Inl)
next
  case (Inr intent)
  show ?thesis
    by (simp add: create_gateway_answers [OF assms Inr] Inr)
qed

text \<open>Facts about doubles: the exponent, the rounding error, the half-integers that
  are doubles, and the quotient by 100 of a safe integer and of a tie.\<close>

lemma ilog2_lower_ge1:
  assumes "1 \<le> x"
  shows "power_int 2 (ilog2 x) \<le> x"
proof -
  have pos: "0 < \<lfloor>x\<rfloor>" using assms by simp
  from bitlen_bounds [OF pos] have "2 ^ nat (bitlen \<lfloor>x\<rfloor> - 1) \<le> \<lfloor>x\<rfloor>" by simp
  then have "rat_of_int (2 ^ nat (bitlen \<lfloor>x\<rfloor> - 1)) \<le> rat_of_int \<lfloor>x\<rfloor>"
    by (simp only: of_int_le_iff)
  also have "\<dots> \<le> x" by simp
  finally have "2 ^ nat (bitlen \<lfloor>x\<rfloor> - 1) \<le> x" by simp
  moreover have "0 \<le> bitlen \<lfloor>x\<rfloor> - 1"
    using pos by (simp add: bitlen_alt_def)
  ultimately show ?thesis
    using assms by (simp add: ilog2_def power_int_def)
qed

lemma ilog2_upper_ge1:
  assumes "1 \<le> x"
  shows "x < power_int 2 (ilog2 x + 1)"
proof -
  have pos: "0 < \<lfloor>x\<rfloor>" using assms by simp
  from bitlen_bounds [OF pos] have "\<lfloor>x\<rfloor> < 2 ^ nat (bitlen \<lfloor>x\<rfloor>)" by simp
  then have "\<lfloor>x\<rfloor> + 1 \<le> 2 ^ nat (bitlen \<lfloor>x\<rfloor>)" by simp
  then have "rat_of_int (\<lfloor>x\<rfloor> + 1) \<le> rat_of_int (2 ^ nat (bitlen \<lfloor>x\<rfloor>))"
    by (simp only: of_int_le_iff)
  moreover have "x < rat_of_int (\<lfloor>x\<rfloor> + 1)" by linarith
  ultimately have "x < 2 ^ nat (bitlen \<lfloor>x\<rfloor>)" by simp
  moreover have "0 \<le> bitlen \<lfloor>x\<rfloor>" by (rule bitlen_nonneg)
  ultimately show ?thesis
    using assms by (simp add: ilog2_def power_int_def)
qed

lemma ilog2_lt1:
  assumes "0 < x" and "x < 1"
  shows "ilog2 x < 0"
proof -
  have "1 < 1 / x" using assms by simp
  then have "1 < \<lceil>1 / x\<rceil>" by (simp add: less_ceiling_iff)
  then have "0 < \<lceil>1 / x\<rceil> - 1" by simp
  then have "bitlen (\<lceil>1 / x\<rceil> - 1) \<noteq> 0" by (simp add: bitlen_eq_zero_iff)
  with bitlen_nonneg [of "\<lceil>1 / x\<rceil> - 1"] have "0 < bitlen (\<lceil>1 / x\<rceil> - 1)" by linarith
  then show ?thesis using assms by (simp add: ilog2_def)
qed

lemma roundTiesToEven_error: "\<bar>of_int (roundTiesToEven y) - y\<bar> \<le> 1 / 2"
proof -
  have lo: "rat_of_int \<lfloor>y\<rfloor> \<le> y" and hi: "y < rat_of_int \<lfloor>y\<rfloor> + 1"
    by linarith+
  consider "y - of_int \<lfloor>y\<rfloor> < 1 / 2" | "1 / 2 < y - of_int \<lfloor>y\<rfloor>"
    | "y - of_int \<lfloor>y\<rfloor> = 1 / 2"
    by linarith
  then show ?thesis
  proof cases
    case 1
    then have "roundTiesToEven y = \<lfloor>y\<rfloor>" by (simp add: roundTiesToEven_def Let_def)
    with 1 lo show ?thesis by simp
  next
    case 2
    then have "roundTiesToEven y = \<lfloor>y\<rfloor> + 1" by (simp add: roundTiesToEven_def Let_def)
    with 2 hi show ?thesis by simp
  next
    case 3
    then have "roundTiesToEven y = \<lfloor>y\<rfloor> \<or> roundTiesToEven y = \<lfloor>y\<rfloor> + 1"
      by (simp add: roundTiesToEven_def Let_def)
    with 3 show ?thesis by auto
  qed
qed

lemma roundTiesToEven_of_int: "roundTiesToEven (of_int m) = m"
  by (simp add: roundTiesToEven_def Let_def)


lemma ilog2_less:
  assumes "0 < x" and "x < power_int 2 n" and "0 \<le> n"
  shows "ilog2 x < n"
proof (cases "1 \<le> x")
  case True
  show ?thesis
  proof (rule ccontr)
    assume "\<not> ilog2 x < n"
    then have "n \<le> ilog2 x" by simp
    then have "power_int (2::rat) n \<le> power_int 2 (ilog2 x)"
      by (rule power_int_increasing) simp
    also have "\<dots> \<le> x" by (rule ilog2_lower_ge1 [OF True])
    finally show False using assms(2) by simp
  qed
next
  case False
  then have "ilog2 x < 0" using assms(1) ilog2_lt1 by simp
  then show ?thesis using assms(3) by simp
qed

lemma roundToDouble_error:
  assumes "x \<noteq> 0"
  shows "\<bar>roundToDouble x - x\<bar> \<le> power_int 2 (ilog2 \<bar>x\<bar> - 52) / 2"
proof -
  define ulp :: rat where "ulp = power_int 2 (ilog2 \<bar>x\<bar> - 52)"
  have pos: "0 < ulp" by (simp add: ulp_def)
  have fl: "roundToDouble x = of_int (roundTiesToEven (x / ulp)) * ulp"
    using assms by (simp add: roundToDouble_def ulp_def Let_def)
  have "roundToDouble x - x = (of_int (roundTiesToEven (x / ulp)) - x / ulp) * ulp"
    using pos by (simp add: fl algebra_simps)
  then have "\<bar>roundToDouble x - x\<bar> = \<bar>of_int (roundTiesToEven (x / ulp)) - x / ulp\<bar> * ulp"
    using pos by (simp add: abs_mult)
  also have "\<dots> \<le> (1 / 2) * ulp"
    using pos roundTiesToEven_error [of "x / ulp"] by (intro mult_right_mono) simp_all
  finally show ?thesis by (simp add: ulp_def)
qed

lemma roundToDouble_error_small:
  assumes "\<bar>x\<bar> < 2 ^ 47"
  shows "\<bar>roundToDouble x - x\<bar> \<le> 1 / 128"
proof (cases "x = 0")
  case True
  then show ?thesis by (simp add: roundToDouble_def)
next
  case False
  then have "0 < \<bar>x\<bar>" by simp
  moreover have "\<bar>x\<bar> < power_int 2 47" using assms by simp
  ultimately have "ilog2 \<bar>x\<bar> < 47" by (rule ilog2_less) simp
  then have "ilog2 \<bar>x\<bar> - 52 \<le> - 6" by simp
  then have "power_int (2::rat) (ilog2 \<bar>x\<bar> - 52) \<le> power_int 2 (- 6)"
    by (rule power_int_increasing) simp
  then have "power_int (2::rat) (ilog2 \<bar>x\<bar> - 52) / 2 \<le> 1 / 128"
    by (simp add: power_int_minus)
  with roundToDouble_error [OF False] show ?thesis by linarith
qed

lemma roundToDouble_half_integer:
  assumes "\<bar>x\<bar> < 2 ^ 52" and "x = of_int m / 2"
  shows "roundToDouble x = x"
proof (cases "x = 0")
  case True
  then show ?thesis by (simp add: roundToDouble_def)
next
  case False
  define e where "e = ilog2 \<bar>x\<bar>"
  have "0 < \<bar>x\<bar>" using False by simp
  moreover have "\<bar>x\<bar> < power_int 2 52" using assms(1) by simp
  ultimately have "ilog2 \<bar>x\<bar> < 52" by (rule ilog2_less) simp
  then have e: "0 \<le> 51 - e" by (simp add: e_def)
  have ulp: "power_int (2::rat) (e - 52) = 1 / (2 * 2 ^ nat (51 - e))"
  proof -
    have "e - 52 = - (52 - e)" by simp
    then have "power_int (2::rat) (e - 52) = inverse (power_int 2 (52 - e))"
      by (simp only: power_int_minus)
    also have "power_int (2::rat) (52 - e) = 2 ^ nat (52 - e)"
      using e by (intro power_int_nonneg_exp) simp
    also have "nat (52 - e) = Suc (nat (51 - e))" using e by simp
    finally show ?thesis by (simp add: field_simps)
  qed
  have "x / power_int 2 (e - 52) = of_int (m * 2 ^ nat (51 - e))"
    by (simp add: ulp assms(2))
  then have "roundTiesToEven (x / power_int 2 (e - 52)) = m * 2 ^ nat (51 - e)"
    by (simp only: roundTiesToEven_of_int)
  then have "roundToDouble x = of_int (m * 2 ^ nat (51 - e)) * power_int 2 (e - 52)"
    using False by (simp add: roundToDouble_def e_def Let_def)
  also have "\<dots> = x" by (simp add: ulp assms(2))
  finally show ?thesis .
qed


lemma quotient_small:
  assumes "\<bar>t\<bar> \<le> b" and "b < 100 * c"
  shows "\<bar>rat_of_int t / 100\<bar> < rat_of_int c"
proof -
  have "\<bar>t\<bar> < 100 * c" using assms by linarith
  then have "rat_of_int \<bar>t\<bar> < rat_of_int (100 * c)" by (simp only: of_int_less_iff)
  then have "\<bar>rat_of_int t\<bar> < 100 * rat_of_int c" by simp
  then show ?thesis by simp
qed

lemma safe_quotient_round:
  assumes "\<bar>t\<bar> \<le> 2 ^ 53"
  shows "Math_round (roundToDouble (of_int t / 100)) = round (rat_of_int t / 100)"
proof -
  define x where "x = rat_of_int t / 100"
  define k where "k = round x"
  have k1: "rat_of_int k \<le> x + 1 / 2" and k2: "x + 1 / 2 < rat_of_int k + 1"
    unfolding k_def round_def by linarith+
  have t100: "rat_of_int t = 100 * x" by (simp add: x_def)
  have "rat_of_int (100 * k) \<le> rat_of_int (t + 50)"
    using k1 t100 by simp
  then have i1: "100 * k \<le> t + 50" by (simp only: of_int_le_iff)
  have "rat_of_int (t + 50) < rat_of_int (100 * k + 100)"
    using k2 t100 by simp
  then have i2: "t + 50 < 100 * k + 100" by (simp only: of_int_less_iff)
  have "\<bar>rat_of_int t / 100\<bar> < rat_of_int (2 ^ 47)"
    using assms by (rule quotient_small) simp
  then have small: "\<bar>x\<bar> < 2 ^ 47" by (simp add: x_def)
  show ?thesis
  proof (cases "t + 50 = 100 * k")
    case True
    then have "rat_of_int t + 50 = 100 * rat_of_int k"
      by (metis of_int_add of_int_mult of_int_numeral)
    then have half: "x = rat_of_int (2 * k - 1) / 2"
      using t100 by simp
    have "\<bar>x\<bar> < 2 ^ 52" using small by simp
    then have "roundToDouble x = x" using half by (rule roundToDouble_half_integer)
    then have "Math_round (roundToDouble x) = round x"
      by (simp only: Math_round_def round_def)
    then show ?thesis by (simp only: x_def)
  next
    case False
    with i1 i2 have "100 * k + 1 \<le> t + 50" and "t + 50 \<le> 100 * k + 99" by linarith+
    then have "rat_of_int (100 * k + 1) \<le> rat_of_int (t + 50)"
      and "rat_of_int (t + 50) \<le> rat_of_int (100 * k + 99)"
      by (simp_all only: of_int_le_iff)
    then have m1: "rat_of_int k + 1 / 100 \<le> x + 1 / 2" and m2: "x + 1 / 2 \<le> rat_of_int k + 99 / 100"
      using t100 by simp_all
    from roundToDouble_error_small [OF small]
    have e1: "x - 1 / 128 \<le> roundToDouble x" and e2: "roundToDouble x \<le> x + 1 / 128"
      by linarith+
    have "rat_of_int k \<le> roundToDouble x + 1 / 2" using m1 e1 by linarith
    moreover have "roundToDouble x + 1 / 2 < rat_of_int k + 1" using m2 e2 by linarith
    ultimately have "\<lfloor>roundToDouble x + 1 / 2\<rfloor> = k" by (rule floor_unique)
    then have "Math_round (roundToDouble x) = round x"
      by (simp only: Math_round_def k_def)
    then show ?thesis by (simp only: x_def)
  qed
qed

lemma tie_quotient_exact:
  assumes "t mod 100 = 50" and "\<bar>t\<bar> < 2 ^ 54"
  shows "roundToDouble (rat_of_int t / 100) = rat_of_int t / 100"
proof -
  from assms(1) obtain q where q: "t div 100 = q" "t = 100 * q + 50"
    by (rule half_up_split)
  have "rat_of_int t = 100 * rat_of_int q + 50"
    by (simp only: q(2) of_int_add of_int_mult of_int_numeral)
  then have half: "rat_of_int t / 100 = rat_of_int (2 * q + 1) / 2"
    by simp
  have "\<bar>t\<bar> \<le> 2 ^ 54" using assms(2) by simp
  then have "\<bar>rat_of_int t / 100\<bar> < rat_of_int (2 ^ 52)"
    by (rule quotient_small) simp
  then have "\<bar>rat_of_int t / 100\<bar> < 2 ^ 52" by simp
  then show ?thesis using half by (rule roundToDouble_half_integer)
qed

lemma double_tie_bound:
  assumes "isDouble (rat_of_int t)" and "t mod 100 = 50"
  shows "\<bar>t\<bar> < 2 ^ 54"
proof (rule ccontr)
  assume "\<not> \<bar>t\<bar> < 2 ^ 54"
  then have big: "2 ^ 54 \<le> \<bar>t\<bar>" by simp
  define x where "x = rat_of_int t"
  define e where "e = ilog2 \<bar>x\<bar>"
  have "rat_of_int (2 ^ 54) \<le> rat_of_int \<bar>t\<bar>" using big by (simp only: of_int_le_iff)
  then have xbig: "2 ^ 54 \<le> \<bar>x\<bar>" by (simp add: x_def)
  moreover have "(1::rat) \<le> 2 ^ 54" by simp
  ultimately have one: "1 \<le> \<bar>x\<bar>" by linarith
  have nz: "x \<noteq> 0" using one by auto
  have "53 < e"
  proof (rule ccontr)
    assume "\<not> 53 < e"
    then have "e + 1 \<le> 54" by simp
    then have "power_int (2::rat) (e + 1) \<le> power_int 2 54"
      by (rule power_int_increasing) simp
    moreover have "\<bar>x\<bar> < power_int 2 (e + 1)"
      unfolding e_def by (rule ilog2_upper_ge1 [OF one])
    ultimately show False using xbig by simp
  qed
  then have e: "0 \<le> e - 54" by simp
  have "power_int (2::rat) (e - 52) = 2 ^ nat (e - 52)"
    using e by (intro power_int_nonneg_exp) simp
  also have "nat (e - 52) = Suc (Suc (nat (e - 54)))" using e by simp
  finally have ulp: "power_int (2::rat) (e - 52) = 4 * 2 ^ nat (e - 54)" by simp
  define n where "n = roundTiesToEven (x / power_int 2 (e - 52))"
  have "roundToDouble x = x" using assms(1) by (simp add: isDouble_def x_def)
  then have "x = rat_of_int n * power_int 2 (e - 52)"
    using nz by (simp add: roundToDouble_def Let_def e_def n_def)
  then have "rat_of_int t = rat_of_int (4 * (n * 2 ^ nat (e - 54)))"
    by (simp add: ulp x_def)
  then have four: "t = 4 * (n * 2 ^ nat (e - 54))" by (simp only: of_int_eq_iff)
  from assms(2) obtain q where q: "t div 100 = q" "t = 100 * q + 50"
    by (rule half_up_split)
  define j where "j = n * 2 ^ nat (e - 54) - 25 * q - 12"
  have "4 * j = 2" using four q(2) by (simp add: j_def)
  then show False by presburger
qed


lemma ilog2_bounds_lt1:
  assumes "0 < x" and "x < 1"
  shows "power_int 2 (ilog2 x) \<le> x \<and> x < power_int 2 (ilog2 x + 1)"
proof -
  define m where "m = \<lceil>1 / x\<rceil>"
  define b where "b = bitlen (m - 1)"
  have e: "ilog2 x = - b" using assms by (simp add: ilog2_def m_def b_def)
  have "1 < 1 / x" using assms by simp
  then have "1 < m" by (simp add: m_def less_ceiling_iff)
  then have pos: "0 < m - 1" by simp
  have m_hi: "1 / x \<le> rat_of_int m" by (simp add: m_def)
  have m_lo: "rat_of_int (m - 1) < 1 / x" unfolding m_def by linarith
  from bitlen_bounds [OF pos]
  have b1: "2 ^ nat (b - 1) \<le> m - 1" and b2: "m - 1 < 2 ^ nat b" by (simp_all add: b_def)
  have "b \<noteq> 0" using pos by (simp add: b_def bitlen_eq_zero_iff)
  with bitlen_nonneg [of "m - 1"] have bpos: "1 \<le> b" by (simp add: b_def)
  have "m \<le> 2 ^ nat b" using b2 by simp
  then have "rat_of_int m \<le> rat_of_int (2 ^ nat b)" by (simp only: of_int_le_iff)
  then have "rat_of_int m \<le> 2 ^ nat b" by (simp only: of_int_power of_int_numeral)
  with m_hi have "1 / x \<le> 2 ^ nat b" by (rule order_trans)
  then have "1 \<le> 2 ^ nat b * x" using assms(1) by (simp add: field_simps)
  then have "1 / 2 ^ nat b \<le> x" by (simp add: field_simps)
  moreover have "power_int (2::rat) (- b) = 1 / 2 ^ nat b"
    using bpos by (simp add: power_int_def field_simps)
  ultimately have lower: "power_int 2 (ilog2 x) \<le> x" by (simp add: e)
  have "rat_of_int (2 ^ nat (b - 1)) \<le> rat_of_int (m - 1)" using b1 by (simp only: of_int_le_iff)
  then have "2 ^ nat (b - 1) \<le> rat_of_int (m - 1)" by (simp only: of_int_power of_int_numeral)
  then have "2 ^ nat (b - 1) < 1 / x" using m_lo by (rule order_le_less_trans)
  then have "2 ^ nat (b - 1) * x < 1" using assms(1) by (simp add: field_simps)
  then have "x < 1 / 2 ^ nat (b - 1)" by (simp add: field_simps)
  moreover have "power_int (2::rat) (- b + 1) = 1 / 2 ^ nat (b - 1)"
    using bpos by (simp add: power_int_def field_simps)
  ultimately have upper: "x < power_int 2 (ilog2 x + 1)" by (simp add: e)
  from lower upper show ?thesis ..
qed

lemma ilog2_bounds:
  assumes "0 < x"
  shows "power_int 2 (ilog2 x) \<le> x \<and> x < power_int 2 (ilog2 x + 1)"
proof (cases "1 \<le> x")
  case True
  then show ?thesis using ilog2_lower_ge1 ilog2_upper_ge1 by simp
next
  case False
  then show ?thesis using assms ilog2_bounds_lt1 by simp
qed

text \<open>Values of the rounding, computed.\<close>

lemma roundToDouble_1000: "roundToDouble 1000 = 1000"
  by code_simp

lemma roundToDouble_3_2: "roundToDouble (3 / 2) = 3 / 2"
  by code_simp

lemma roundToDouble_tenth: "roundToDouble (1 / 10) = 3602879701896397 / 2 ^ 55"
  by code_simp

lemma isDouble_big: "isDouble 28147497671065648"
  by code_simp

lemma round_big: "round (28147497671065648 / 100 :: rat) = 281474976710656"
  by code_simp

lemma roundToDouble_150: "roundToDouble 150 = 150"
  by code_simp

lemma amount_big: "Math_round (Number_divide 28147497671065648 100) = 281474976710657"
  by code_simp

lemma currencyHasFractionPart_iff:
  "currencyHasFractionPart env c
     = (\<exists>p \<in> set (formatToParts env c (12345 / 100)). p_type p = ''fraction'')"
  by (simp add: currencyHasFractionPart_def Let_def find_None_iff Bex_def)

lemma getStripeCustomerId_by_steps:
  "getStripeCustomerId env ctx activeOrder
     = andThen (findOneOrder (o_id activeOrder) [''customer'']) (afterOrderFetch env)"
proof -
  have "(\<lambda>order.
          case order of
            None \<Rightarrow> returns None
          | Some ord \<Rightarrow>
              (case o_customer ord of
                 None \<Rightarrow> returns None
               | Some cust \<Rightarrow>
                   if truthy (stripeCustomerId (c_customFields cust))
                   then returns (stripeCustomerId (c_customFields cust))
                   else
                     andThen (stripe_customers_list env \<lparr>l_email = c_emailAddress cust\<rparr>)
                       (afterCustomersList env cust))) = afterOrderFetch env"
    by (rule ext) (simp add: afterOrderFetch_def)
  then show ?thesis
    unfolding getStripeCustomerId_def afterCustomersList_def [abs_def] by simp
qed

lemma dbAfter_keeps_cached:
  assumes "customerTable db k = Some row" "truthy (stripeCustomerId (row_customFields row))"
  shows "customerTable (dbAfter c db) k = Some row"
proof (cases c)
  case (CallGetStripeCustomerId env ctx order)
  then show ?thesis using assms by (simp add: resolve_keeps_cached)
next
  case (CallCreatePaymentIntent env ctx order)
  then show ?thesis using assms by (simp add: create_keeps_cached)
next
  case (CallCreateRefund env pid amt)
  then show ?thesis using assms by (simp add: createRefund_db)
next
  case (CallConstructEventFromPayload env payload header)
  then show ?thesis using assms by (simp add: constructEventFromPayload_run)
qed

lemma dbAfterAll_keeps_cached:
  assumes "customerTable db k = Some row" "truthy (stripeCustomerId (row_customFields row))"
  shows "customerTable (dbAfterAll cs db) k = Some row"
  using assms
proof (induction cs arbitrary: db)
  case Nil
  then show ?case by simp
next
  case (Cons c cs)
  from Cons.prems have "customerTable (dbAfter c db) k = Some row"
    by (rule dbAfter_keeps_cached)
  then show ?case using Cons.IH Cons.prems(2) by simp
qed

subsection \<open>Refunds\<close>

text \<open>
  Claim C3. For every \<^verbatim>\<open>createRefund(paymentIntentId, amount)\<close>: the service issues the
  refund request with that payment intent and amount; the method always returns (it
  never throws); when the gateway client's refund call throws a value, that value is
  returned as an error value; when the call succeeds, the gateway's refund object is
  returned.
\<close>

theorem createRefund_returns_error_value:
  "effectsOf (createRefund env pid amt db)
     = [StripeRefundsCreate \<lparr>payment_intent = pid, r_amount = amt\<rparr>]
   \<and> (\<exists>v. resultOf (createRefund env pid amt db) = Inr v)
   \<and> (\<forall>e. refunds_create (stripe env) \<lparr>payment_intent = pid, r_amount = amt\<rparr> = Inl e
        \<longrightarrow> resultOf (createRefund env pid amt db) = Inr (ErrorValue e))
   \<and> (\<forall>refund. refunds_create (stripe env) \<lparr>payment_intent = pid, r_amount = amt\<rparr> = Inr refund
        \<longrightarrow> resultOf (createRefund env pid amt db) = Inr (RefundValue refund))"
  by (cases "refunds_create (stripe env) \<lparr>payment_intent = pid, r_amount = amt\<rparr>")
     (simp_all add: createRefund_def action_defs)

theorem createRefund_returns_error_value_witness:
  "refunds_create (stripe (sampleEnv False)) \<lparr>payment_intent = ''pi_9'', r_amount = 500\<rparr>
     = Inl (Thrown ''StripeInvalidRequestError'' ''No such payment_intent'')
   \<and> resultOf (createRefund (sampleEnv False) ''pi_9'' 500 sampleDb)
     = Inr (ErrorValue (Thrown ''StripeInvalidRequestError'' ''No such payment_intent''))
   \<and> refunds_create (stripe (sampleEnv False)) \<lparr>payment_intent = ''pi_1'', r_amount = 500\<rparr>
     = Inr \<lparr>re_id = ''re_1'', re_amount = 500\<rparr>
   \<and> resultOf (createRefund (sampleEnv False) ''pi_1'' 500 sampleDb)
     = Inr (RefundValue \<lparr>re_id = ''re_1'', re_amount = 500\<rparr>)"
  using createRefund_returns_error_value [of "sampleEnv False" "''pi_9''" 500 sampleDb]
    createRefund_returns_error_value [of "sampleEnv False" "''pi_1''" 500 sampleDb]
  by (simp add: sampleEnv_def sampleStripe_def)

subsection \<open>The amount sent to the gateway\<close>

text \<open>
  Claim C1, amended. For every order, \<^verbatim>\<open>createPaymentIntent\<close> computes the
  gateway-facing amount as follows. If the number formatter gives the order's currency
  code a fraction part (a part of type \<^verbatim>\<open>fraction\<close> in what it returns for 123.45), the
  amount is the stored \<^verbatim>\<open>totalWithTax\<close> unchanged. If the formatter gives it none (a
  zero-decimal currency) and the stored total is a safe integer (at most \<open>2 ^ 53\<close> in
  magnitude), the amount is \<^verbatim>\<open>totalWithTax / 100\<close> rounded to the nearest integer. Every
  payment-intent request of the run carries the computed amount, and a run that returns
  has sent exactly one. In particular a stored total of 100000 in JPY, when the
  formatter gives JPY no fraction part, yields 1000, and a stored total of 1999 in USD,
  when the formatter gives USD a fraction part, yields 1999.
\<close>

theorem createPaymentIntent_amount:
  "((\<exists>p \<in> set (formatToParts env (o_currencyCode order) (12345 / 100)). p_type p = ''fraction'')
      \<longrightarrow> amountInMinorUnits env order = o_totalWithTax order)
   \<and> ((\<forall>p \<in> set (formatToParts env (o_currencyCode order) (12345 / 100)). p_type p \<noteq> ''fraction'')
        \<and> \<bar>o_totalWithTax order\<bar> \<le> 2 ^ 53
      \<longrightarrow> amountInMinorUnits env order = round (rat_of_int (o_totalWithTax order) / 100))
   \<and> (\<forall>p \<in> set (paymentIntentRequests (effectsOf (createPaymentIntent env ctx order db))).
        amount p = amountInMinorUnits env order)
   \<and> ((\<exists>r. resultOf (createPaymentIntent env ctx order db) = Inr r)
        \<longrightarrow> length (paymentIntentRequests (effectsOf (createPaymentIntent env ctx order db))) = 1)
   \<and> (o_currencyCode order = ''JPY''
        \<and> (\<forall>p \<in> set (formatToParts env ''JPY'' (12345 / 100)). p_type p \<noteq> ''fraction'')
        \<and> o_totalWithTax order = 100000 \<longrightarrow> amountInMinorUnits env order = 1000)
   \<and> (o_currencyCode order = ''USD''
        \<and> (\<exists>p \<in> set (formatToParts env ''USD'' (12345 / 100)). p_type p = ''fraction'')
        \<and> o_totalWithTax order = 1999 \<longrightarrow> amountInMinorUnits env order = 1999)"
proof -
  have unchanged: "(\<exists>p \<in> set (formatToParts env (o_currencyCode order) (12345 / 100)).
        p_type p = ''fraction'')
      \<longrightarrow> amountInMinorUnits env order = o_totalWithTax order"
    by (simp add: amountInMinorUnits_def currencyHasFractionPart_iff)
  have divided: "(\<forall>p \<in> set (formatToParts env (o_currencyCode order) (12345 / 100)).
        p_type p \<noteq> ''fraction'')
        \<and> \<bar>o_totalWithTax order\<bar> \<le> 2 ^ 53
      \<longrightarrow> amountInMinorUnits env order = round (rat_of_int (o_totalWithTax order) / 100)"
  proof
    assume a: "(\<forall>p \<in> set (formatToParts env (o_currencyCode order) (12345 / 100)).
        p_type p \<noteq> ''fraction'')
        \<and> \<bar>o_totalWithTax order\<bar> \<le> 2 ^ 53"
    then have "\<not> currencyHasFractionPart env (o_currencyCode order)"
      by (simp add: currencyHasFractionPart_iff)
    then have "amountInMinorUnits env order
        = Math_round (roundToDouble (rat_of_int (o_totalWithTax order) / 100))"
      by (simp add: amountInMinorUnits_def Number_divide_def)
    also have "\<dots> = round (rat_of_int (o_totalWithTax order) / 100)"
      using a by (intro safe_quotient_round) simp
    finally show "amountInMinorUnits env order = round (rat_of_int (o_totalWithTax order) / 100)" .
  qed
  have sent: "\<forall>p \<in> set (paymentIntentRequests (effectsOf (createPaymentIntent env ctx order db))).
        amount p = amountInMinorUnits env order"
    using create_requests_amount by blast
  have once: "(\<exists>r. resultOf (createPaymentIntent env ctx order db) = Inr r)
        \<longrightarrow> length (paymentIntentRequests (effectsOf (createPaymentIntent env ctx order db))) = 1"
    using create_requests_returned by blast
  have yen: "o_currencyCode order = ''JPY''
        \<and> (\<forall>p \<in> set (formatToParts env ''JPY'' (12345 / 100)). p_type p \<noteq> ''fraction'')
        \<and> o_totalWithTax order = 100000 \<longrightarrow> amountInMinorUnits env order = 1000"
  proof
    assume a: "o_currencyCode order = ''JPY''
        \<and> (\<forall>p \<in> set (formatToParts env ''JPY'' (12345 / 100)). p_type p \<noteq> ''fraction'')
        \<and> o_totalWithTax order = 100000"
    then have "amountInMinorUnits env order = round (rat_of_int (o_totalWithTax order) / 100)"
      using divided by simp
    then show "amountInMinorUnits env order = 1000" using a by simp
  qed
  have dollar: "o_currencyCode order = ''USD''
        \<and> (\<exists>p \<in> set (formatToParts env ''USD'' (12345 / 100)). p_type p = ''fraction'')
        \<and> o_totalWithTax order = 1999 \<longrightarrow> amountInMinorUnits env order = 1999"
    using unchanged by simp
  show ?thesis using unchanged divided sent once yen dollar by (intro conjI) assumption+
qed

theorem createPaymentIntent_amount_witness:
  "map p_type (formatToParts (sampleEnv False) ''JPY'' (12345 / 100)) = [''currency'', ''integer'']
   \<and> \<bar>100000 :: int\<bar> \<le> 2 ^ 53
   \<and> resultOf (createPaymentIntent (sampleEnv False) (sampleCtx None)
        (sampleOrder ''o1'' ''ORD'' ''JPY'' 100000) sampleDb) = Inr (Some ''pi_1_secret'')
   \<and> map amount (paymentIntentRequests (effectsOf (createPaymentIntent (sampleEnv False)
        (sampleCtx None) (sampleOrder ''o1'' ''ORD'' ''JPY'' 100000) sampleDb))) = [1000]
   \<and> map p_type (formatToParts (sampleEnv False) ''USD'' (12345 / 100))
      = [''currency'', ''integer'', ''decimal'', ''fraction'']
   \<and> map amount (paymentIntentRequests (effectsOf (createPaymentIntent (sampleEnv False)
        (sampleCtx None) (sampleOrder ''o1'' ''ORD'' ''USD'' 1999) sampleDb))) = [1999]"
  using createPaymentIntent_amount [of "sampleEnv False"
      "sampleOrder ''o1'' ''ORD'' ''JPY'' 100000" "sampleCtx None" sampleDb]
    createPaymentIntent_amount [of "sampleEnv False"
      "sampleOrder ''o1'' ''ORD'' ''USD'' 1999" "sampleCtx None" sampleDb]
  by (simp add: run_defs number_defs action_defs sample_defs roundToDouble_1000)

text \<open>
  Claim C1 as stated, for every order, fails for a total beyond the safe integers:
  28147497671065648 is a number, the formatter gives JPY no fraction part, and the
  quotient by 100 lies nearer to the double 281474976710656.5 than to any other, so
  the request carries 281474976710657, while the quotient rounded to the nearest
  integer is 281474976710656.
\<close>

theorem createPaymentIntent_amount_counterexample:
  "isDouble 28147497671065648
   \<and> map p_type (formatToParts (sampleEnv False) ''JPY'' (12345 / 100)) = [''currency'', ''integer'']
   \<and> map amount (paymentIntentRequests (effectsOf (createPaymentIntent (sampleEnv False)
        (sampleCtx None) (sampleOrder ''o1'' ''ORD'' ''JPY'' 28147497671065648) sampleDb)))
      = [281474976710657]
   \<and> round (28147497671065648 / 100 :: rat) = 281474976710656"
proof (intro conjI)
  show "isDouble 28147497671065648" by (rule isDouble_big)
  show "map p_type (formatToParts (sampleEnv False) ''JPY'' (12345 / 100)) = [''currency'', ''integer'']"
    by (simp add: sample_defs)
  show "map amount (paymentIntentRequests (effectsOf (createPaymentIntent (sampleEnv False)
        (sampleCtx None) (sampleOrder ''o1'' ''ORD'' ''JPY'' 28147497671065648) sampleDb)))
      = [281474976710657]"
    by (simp add: run_defs action_defs sample_defs amount_big)
  show "round (28147497671065648 / 100 :: rat) = 281474976710656" by (rule round_big)
qed

text \<open>
  Claim C10. For every order in a zero-decimal currency whose stored \<^verbatim>\<open>totalWithTax\<close>, a
  JavaScript number, leaves remainder 50 modulo 100, the gateway-facing amount is the
  next integer above the quotient by 100, the quotient plus one half: \<^verbatim>\<open>Math.round\<close>
  rounds a half upward. A stored total of 150 yields 2.
\<close>

theorem zero_decimal_half_rounds_up:
  assumes "\<not> currencyHasFractionPart env (o_currencyCode order)"
    and "o_totalWithTax order mod 100 = 50"
    and "isDouble (rat_of_int (o_totalWithTax order))"
  shows "amountInMinorUnits env order = o_totalWithTax order div 100 + 1
   \<and> rat_of_int (amountInMinorUnits env order) = rat_of_int (o_totalWithTax order) / 100 + 1 / 2
   \<and> (\<forall>p \<in> set (paymentIntentRequests (effectsOf (createPaymentIntent env ctx order db))).
        amount p = o_totalWithTax order div 100 + 1)"
proof -
  have "\<bar>o_totalWithTax order\<bar> < 2 ^ 54"
    using assms(3) assms(2) by (rule double_tie_bound)
  with assms(2) have exact: "roundToDouble (rat_of_int (o_totalWithTax order) / 100)
      = rat_of_int (o_totalWithTax order) / 100"
    by (rule tie_quotient_exact)
  have "amountInMinorUnits env order = Math_round (rat_of_int (o_totalWithTax order) / 100)"
    using assms(1) by (simp add: amountInMinorUnits_def Number_divide_def exact)
  then have up: "amountInMinorUnits env order = o_totalWithTax order div 100 + 1"
    using half_up_div [OF assms(2)] by (simp add: Math_round_div_100)
  have half: "rat_of_int (amountInMinorUnits env order)
      = rat_of_int (o_totalWithTax order) / 100 + 1 / 2"
    using half_up_rat [OF assms(2)] up by simp
  have sent: "\<forall>p \<in> set (paymentIntentRequests (effectsOf (createPaymentIntent env ctx order db))).
        amount p = o_totalWithTax order div 100 + 1"
    using create_requests_amount [of _ env ctx order db] up by simp
  show ?thesis using up half sent by (intro conjI) assumption+
qed

theorem zero_decimal_half_rounds_up_witness:
  "\<not> currencyHasFractionPart (sampleEnv False) ''JPY''
   \<and> (150 :: int) mod 100 = 50
   \<and> isDouble 150
   \<and> amountInMinorUnits (sampleEnv False) (sampleOrder ''o1'' ''ORD'' ''JPY'' 150) = 2
   \<and> map amount (paymentIntentRequests (effectsOf (createPaymentIntent (sampleEnv False)
        (sampleCtx None) (sampleOrder ''o1'' ''ORD'' ''JPY'' 150) sampleDb))) = [2]"
  using zero_decimal_half_rounds_up [of "sampleEnv False"
      "sampleOrder ''o1'' ''ORD'' ''JPY'' 150" "sampleCtx None" sampleDb]
  by (simp add: run_defs number_defs action_defs sample_defs isDouble_def
      roundToDouble_150 roundToDouble_3_2)

subsection \<open>The cached customer id\<close>

text \<open>
  Claim C2, amended. For every customer whose record already carries a cached Stripe
  customer id (\<^verbatim>\<open>customFields.stripeCustomerId\<close> is a non-empty string, which is what the
  service tests), resolving the remote customer id returns exactly that cached value;
  the only effect is the re-fetch of the order: no list-customers call, no
  create-customer call, no save; the database is unchanged. Hence, as long as the
  calls of the service run one after the other, none starting while another waits
  between its read of the customer and its save, a cached id once set is never
  overwritten: a row of the customer table that holds a cached id is the same after
  each of \<^verbatim>\<open>getStripeCustomerId\<close>, \<^verbatim>\<open>createPaymentIntent\<close>, \<^verbatim>\<open>createRefund\<close> and
  \<^verbatim>\<open>constructEventFromPayload\<close>, and after every list of such calls.
\<close>

theorem cached_customer_id_short_circuits:
  "(loadOrder db (o_id activeOrder) [''customer''] = Some ord \<and> o_customer ord = Some cust
      \<and> stripeCustomerId (c_customFields cust) = Some sid \<and> sid \<noteq> []
     \<longrightarrow> resultOf (getStripeCustomerId env ctx activeOrder db) = Inr (Some sid)
       \<and> effectsOf (getStripeCustomerId env ctx activeOrder db)
           = [RepoFindOneOrder (o_id activeOrder) [''customer'']]
       \<and> customerListRequests (effectsOf (getStripeCustomerId env ctx activeOrder db)) = []
       \<and> customerCreateRequests (effectsOf (getStripeCustomerId env ctx activeOrder db)) = []
       \<and> customerSaves (effectsOf (getStripeCustomerId env ctx activeOrder db)) = []
       \<and> dbOf (getStripeCustomerId env ctx activeOrder db) = db)
   \<and> (customerTable db k = Some row \<and> truthy (stripeCustomerId (row_customFields row))
     \<longrightarrow> customerTable (dbOf (getStripeCustomerId env ctx activeOrder db)) k = Some row
       \<and> customerTable (dbOf (createPaymentIntent env ctx activeOrder db)) k = Some row
       \<and> customerTable (dbOf (createRefund env pid amt db)) k = Some row
       \<and> customerTable (dbOf (constructEventFromPayload env payload header db)) k = Some row
       \<and> customerTable (dbAfterAll calls db) k = Some row)"
proof (intro conjI impI)
  assume a: "loadOrder db (o_id activeOrder) [''customer''] = Some ord \<and> o_customer ord = Some cust
      \<and> stripeCustomerId (c_customFields cust) = Some sid \<and> sid \<noteq> []"
  then have "truthy (stripeCustomerId (c_customFields cust))" by simp
  with a have run: "getStripeCustomerId env ctx activeOrder db
      = (Inr (Some sid), db, [RepoFindOneOrder (o_id activeOrder) [''customer'']])"
    by (simp add: resolve_cached)
  show "resultOf (getStripeCustomerId env ctx activeOrder db) = Inr (Some sid)"
    by (simp add: run)
  show "effectsOf (getStripeCustomerId env ctx activeOrder db)
           = [RepoFindOneOrder (o_id activeOrder) [''customer'']]"
    by (simp add: run)
  show "customerListRequests (effectsOf (getStripeCustomerId env ctx activeOrder db)) = []"
    by (simp add: run)
  show "customerCreateRequests (effectsOf (getStripeCustomerId env ctx activeOrder db)) = []"
    by (simp add: run)
  show "customerSaves (effectsOf (getStripeCustomerId env ctx activeOrder db)) = []"
    by (simp add: run)
  show "dbOf (getStripeCustomerId env ctx activeOrder db) = db"
    by (simp add: run)
next
  assume b: "customerTable db k = Some row \<and> truthy (stripeCustomerId (row_customFields row))"
  show "customerTable (dbOf (getStripeCustomerId env ctx activeOrder db)) k = Some row"
    using b by (simp add: resolve_keeps_cached)
  show "customerTable (dbOf (createPaymentIntent env ctx activeOrder db)) k = Some row"
    using b by (simp add: create_keeps_cached)
  show "customerTable (dbOf (createRefund env pid amt db)) k = Some row"
    using b by (simp add: createRefund_db)
  show "customerTable (dbOf (constructEventFromPayload env payload header db)) k = Some row"
    using b by (simp add: constructEventFromPayload_run)
  show "customerTable (dbAfterAll calls db) k = Some row"
    using b by (simp add: dbAfterAll_keeps_cached)
qed

theorem cached_customer_id_short_circuits_witness:
  "loadOrder sampleDb ''o1'' [''customer'']
     = Some ((sampleOrder ''o1'' ''ORD'' ''USD'' 1999)
         \<lparr>o_customer := Some (sampleCustomer ''c1'' ''cached@example.com'' (Some ''cus_C''))\<rparr>)
   \<and> getStripeCustomerId (sampleEnv True) (sampleCtx (Some ''u1''))
        (sampleOrder ''o1'' ''ORD'' ''USD'' 1999) sampleDb
      = (Inr (Some ''cus_C''), sampleDb, [RepoFindOneOrder ''o1'' [''customer'']])
   \<and> customerTable sampleDb ''c1'' = Some (sampleCustomerRow ''cached@example.com'' (Some ''cus_C''))
   \<and> customerTable (dbOf (createPaymentIntent (sampleEnv True) (sampleCtx (Some ''u1''))
        (sampleOrder ''o1'' ''ORD'' ''USD'' 1999) sampleDb)) ''c1''
      = Some (sampleCustomerRow ''cached@example.com'' (Some ''cus_C''))
   \<and> customerTable (dbAfterAll
        [CallCreatePaymentIntent (sampleEnv True) (sampleCtx (Some ''u1''))
           (sampleOrder ''o1'' ''ORD'' ''USD'' 1999),
         CallGetStripeCustomerId (sampleEnv True) (sampleCtx (Some ''u2''))
           (sampleOrder ''o3'' ''ORD'' ''USD'' 1999)] sampleDb) ''c1''
      = Some (sampleCustomerRow ''cached@example.com'' (Some ''cus_C''))"
  using cached_customer_id_short_circuits [where db = sampleDb
      and activeOrder = "sampleOrder ''o1'' ''ORD'' ''USD'' 1999"
      and ord = "(sampleOrder ''o1'' ''ORD'' ''USD'' 1999)
         \<lparr>o_customer := Some (sampleCustomer ''c1'' ''cached@example.com'' (Some ''cus_C''))\<rparr>"
      and cust = "sampleCustomer ''c1'' ''cached@example.com'' (Some ''cus_C'')"
      and sid = "''cus_C''" and env = "sampleEnv True" and ctx = "sampleCtx (Some ''u1'')"
      and k = "''c1''" and row = "sampleCustomerRow ''cached@example.com'' (Some ''cus_C'')"
      and pid = "''pi_1''" and amt = 1 and payload = "''{}''" and header = "''t=1,v1=ok''"
      and calls = "[CallCreatePaymentIntent (sampleEnv True) (sampleCtx (Some ''u1''))
           (sampleOrder ''o1'' ''ORD'' ''USD'' 1999),
         CallGetStripeCustomerId (sampleEnv True) (sampleCtx (Some ''u2''))
           (sampleOrder ''o3'' ''ORD'' ''USD'' 1999)]"]
  by (simp add: run_defs action_defs sample_defs)

text \<open>
  Claim C2 as stated, for any operation, fails when two resolutions of one customer
  overlap. Request A fetches order \<open>o3\<close>, whose customer \<open>c3\<close> has no cached id, and
  its lookup by email finds nothing. While A waits, request B resolves the same
  customer to its end and caches \<open>cus_new\<close>. A goes on from the answer of its lookup
  with the entity it read before: it creates a customer, \<open>cus_dup\<close>, and its save
  overwrites the cached \<open>cus_new\<close>.
\<close>

theorem cached_customer_id_overwritten_counterexample:
  "loadOrder sampleDb ''o3'' [''customer'']
     = Some ((sampleOrder ''o3'' ''ORD'' ''USD'' 1999)
         \<lparr>o_customer := Some (sampleCustomer ''c3'' ''new@example.com'' None)\<rparr>)
   \<and> customers_list (stripe sampleEnvLater) \<lparr>l_email = ''new@example.com''\<rparr> = Inr \<lparr>data = []\<rparr>
   \<and> customerTable (dbOf (getStripeCustomerId (sampleEnv True) (sampleCtx (Some ''u2''))
        (sampleOrder ''o3'' ''ORD'' ''USD'' 1999) sampleDb)) ''c3''
      = Some (sampleCustomerRow ''new@example.com'' (Some ''cus_new''))
   \<and> customerTable (dbOf (afterCustomersList sampleEnvLater
        (sampleCustomer ''c3'' ''new@example.com'' None) \<lparr>data = []\<rparr>
        (dbOf (getStripeCustomerId (sampleEnv True) (sampleCtx (Some ''u2''))
           (sampleOrder ''o3'' ''ORD'' ''USD'' 1999) sampleDb)))) ''c3''
      = Some (sampleCustomerRow ''new@example.com'' (Some ''cus_dup''))"
  by (simp add: run_defs action_defs sample_defs afterCustomersList_def)

subsection \<open>Webhook events\<close>

text \<open>
  Claim C8. For every raw payload and signature header, \<^verbatim>\<open>constructEventFromPayload\<close>
  hands the payload, the header and the configured webhook signing secret to the
  gateway client's \<^verbatim>\<open>constructEvent\<close>; it throws exactly when the client's verification
  throws, and throws that same value (nothing is caught); when the client accepts the
  triple, the event the client parsed is returned.
\<close>

theorem constructEventFromPayload_verifies:
  "effectsOf (constructEventFromPayload env payload header db)
     = [StripeWebhooksConstructEvent payload header (webhookSigningSecret (options env))]
   \<and> ((\<exists>e. resultOf (constructEventFromPayload env payload header db) = Inl e)
        \<longleftrightarrow> (\<exists>e. webhooks_constructEvent (stripe env) payload header
                    (webhookSigningSecret (options env)) = Inl e))
   \<and> (\<forall>e. webhooks_constructEvent (stripe env) payload header
              (webhookSigningSecret (options env)) = Inl e
        \<longrightarrow> resultOf (constructEventFromPayload env payload header db) = Inl e)
   \<and> (\<forall>event. webhooks_constructEvent (stripe env) payload header
              (webhookSigningSecret (options env)) = Inr event
        \<longrightarrow> resultOf (constructEventFromPayload env payload header db) = Inr event)"
  by (simp add: constructEventFromPayload_run)

theorem constructEventFromPayload_verifies_witness:
  "webhooks_constructEvent (stripe (sampleEnv False)) ''{}'' ''t=1,v1=bad''
       (webhookSigningSecret (options (sampleEnv False)))
     = Inl (Thrown ''StripeSignatureVerificationError'' ''No signatures found'')
   \<and> resultOf (constructEventFromPayload (sampleEnv False) ''{}'' ''t=1,v1=bad'' sampleDb)
     = Inl (Thrown ''StripeSignatureVerificationError'' ''No signatures found'')
   \<and> webhooks_constructEvent (stripe (sampleEnv False)) ''{}'' ''t=1,v1=ok''
       (webhookSigningSecret (options (sampleEnv False)))
     = Inr \<lparr>ev_id = ''evt_1'', ev_type = ''{}''\<rparr>
   \<and> resultOf (constructEventFromPayload (sampleEnv False) ''{}'' ''t=1,v1=ok'' sampleDb)
     = Inr \<lparr>ev_id = ''evt_1'', ev_type = ''{}''\<rparr>"
  using constructEventFromPayload_verifies [of "sampleEnv False" "''{}''" "''t=1,v1=bad''" sampleDb]
    constructEventFromPayload_verifies [of "sampleEnv False" "''{}''" "''t=1,v1=ok''" sampleDb]
  by (simp add: sampleEnv_def sampleStripe_def)

subsection \<open>Resolving a customer with no cached id\<close>

text \<open>
  Claim C4. For every customer with no cached remote id (the field is absent or empty),
  if the gateway lookup by email returns no matches, the resolution issues exactly one
  create-customer call, carrying the customer's email address and the name formed as
  first name, a space, then last name. When that call returns, the new customer's id
  is returned, an informational trace is logged, and the id is saved onto the
  customer's \<^verbatim>\<open>stripeCustomerId\<close> with \<^verbatim>\<open>reload: false\<close>; the customer read back from
  the database carries it.
\<close>

theorem unknown_email_creates_customer:
  assumes "loadOrder db (o_id activeOrder) [''customer''] = Some ord"
    and "o_customer ord = Some cust"
    and "\<not> truthy (stripeCustomerId (c_customFields cust))"
    and "customers_list (stripe env) \<lparr>l_email = c_emailAddress cust\<rparr> = Inr found"
    and "data found = []"
  shows "customerCreateRequests (effectsOf (getStripeCustomerId env ctx activeOrder db))
       = [\<lparr>email = c_emailAddress cust, name = c_firstName cust @ '' '' @ c_lastName cust\<rparr>]
   \<and> (\<forall>created.
        customers_create (stripe env)
          \<lparr>email = c_emailAddress cust, name = c_firstName cust @ '' '' @ c_lastName cust\<rparr>
          = Inr created
        \<longrightarrow> resultOf (getStripeCustomerId env ctx activeOrder db) = Inr (Some (sc_id created))
          \<and> effectsOf (getStripeCustomerId env ctx activeOrder db)
            = [RepoFindOneOrder (o_id activeOrder) [''customer''],
               StripeCustomersList \<lparr>l_email = c_emailAddress cust\<rparr>,
               StripeCustomersCreate
                 \<lparr>email = c_emailAddress cust, name = c_firstName cust @ '' '' @ c_lastName cust\<rparr>,
               LoggerInfo (''Created Stripe Customer record for customerId '' @ c_id cust)
                 (loggerCtx env),
               RepoSaveCustomer
                 (cust\<lparr>c_customFields :=
                    (c_customFields cust)\<lparr>stripeCustomerId := Some (sc_id created)\<rparr>\<rparr>)
                 False]
          \<and> loadCustomer (dbOf (getStripeCustomerId env ctx activeOrder db)) (c_id cust)
            = Some (cust\<lparr>c_customFields :=
                (c_customFields cust)\<lparr>stripeCustomerId := Some (sc_id created)\<rparr>\<rparr>))"
proof (intro conjI allI impI)
  show "customerCreateRequests (effectsOf (getStripeCustomerId env ctx activeOrder db))
       = [\<lparr>email = c_emailAddress cust, name = c_firstName cust @ '' '' @ c_lastName cust\<rparr>]"
  proof (cases "customers_create (stripe env)
          \<lparr>email = c_emailAddress cust, name = c_firstName cust @ '' '' @ c_lastName cust\<rparr>")
    case (Inl e)
    show ?thesis by (simp add: resolve_create_throws [OF assms Inl])
  next
    case (Inr created)
    show ?thesis by (simp add: resolve_created [OF assms Inr])
  qed
next
  fix created
  assume c: "customers_create (stripe env)
          \<lparr>email = c_emailAddress cust, name = c_firstName cust @ '' '' @ c_lastName cust\<rparr>
          = Inr created"
  note run = resolve_created [OF assms c]
  show "resultOf (getStripeCustomerId env ctx activeOrder db) = Inr (Some (sc_id created))"
    by (simp add: run)
  show "effectsOf (getStripeCustomerId env ctx activeOrder db)
            = [RepoFindOneOrder (o_id activeOrder) [''customer''],
               StripeCustomersList \<lparr>l_email = c_emailAddress cust\<rparr>,
               StripeCustomersCreate
                 \<lparr>email = c_emailAddress cust, name = c_firstName cust @ '' '' @ c_lastName cust\<rparr>,
               LoggerInfo (''Created Stripe Customer record for customerId '' @ c_id cust)
                 (loggerCtx env),
               RepoSaveCustomer
                 (cust\<lparr>c_customFields :=
                    (c_customFields cust)\<lparr>stripeCustomerId := Some (sc_id created)\<rparr>\<rparr>)
                 False]"
    by (simp add: run)
  show "loadCustomer (dbOf (getStripeCustomerId env ctx activeOrder db)) (c_id cust)
            = Some (cust\<lparr>c_customFields :=
                (c_customFields cust)\<lparr>stripeCustomerId := Some (sc_id created)\<rparr>\<rparr>)"
    by (simp add: run loadCustomer_def customerRow_def)
qed

theorem unknown_email_creates_customer_witness:
  "loadOrder sampleDb ''o3'' [''customer'']
     = Some ((sampleOrder ''o3'' ''ORD'' ''USD'' 1999)
         \<lparr>o_customer := Some (sampleCustomer ''c3'' ''new@example.com'' None)\<rparr>)
   \<and> customers_list (stripe (sampleEnv True)) \<lparr>l_email = ''new@example.com''\<rparr> = Inr \<lparr>data = []\<rparr>
   \<and> customers_create (stripe (sampleEnv True))
        \<lparr>email = ''new@example.com'', name = ''Ada Lovelace''\<rparr>
      = Inr \<lparr>sc_id = ''cus_new'', sc_email = ''new@example.com''\<rparr>
   \<and> resultOf (getStripeCustomerId (sampleEnv True) (sampleCtx (Some ''u1''))
        (sampleOrder ''o3'' ''ORD'' ''USD'' 1999) sampleDb) = Inr (Some ''cus_new'')
   \<and> effectsOf (getStripeCustomerId (sampleEnv True) (sampleCtx (Some ''u1''))
        (sampleOrder ''o3'' ''ORD'' ''USD'' 1999) sampleDb)
      = [RepoFindOneOrder ''o3'' [''customer''],
         StripeCustomersList \<lparr>l_email = ''new@example.com''\<rparr>,
         StripeCustomersCreate \<lparr>email = ''new@example.com'', name = ''Ada Lovelace''\<rparr>,
         LoggerInfo ''Created Stripe Customer record for customerId c3'' ''StripePlugin'',
         RepoSaveCustomer (sampleCustomer ''c3'' ''new@example.com'' (Some ''cus_new'')) False]
   \<and> loadCustomer (dbOf (getStripeCustomerId (sampleEnv True) (sampleCtx (Some ''u1''))
        (sampleOrder ''o3'' ''ORD'' ''USD'' 1999) sampleDb)) ''c3''
      = Some (sampleCustomer ''c3'' ''new@example.com'' (Some ''cus_new''))"
  using unknown_email_creates_customer [where db = sampleDb
      and activeOrder = "sampleOrder ''o3'' ''ORD'' ''USD'' 1999"
      and ord = "(sampleOrder ''o3'' ''ORD'' ''USD'' 1999)
         \<lparr>o_customer := Some (sampleCustomer ''c3'' ''new@example.com'' None)\<rparr>"
      and cust = "sampleCustomer ''c3'' ''new@example.com'' None"
      and env = "sampleEnv True" and ctx = "sampleCtx (Some ''u1'')"
      and found = "\<lparr>data = []\<rparr>"]
  by (simp add: run_defs action_defs sample_defs)

text \<open>
  Claim C5. For every customer with no cached remote id, if the gateway lookup by email
  returns one or more matches, the resolution returns the id of the first match; it
  issues no create-customer call and logs no informational trace (the effects are the
  order re-fetch, the lookup and the save); the id is saved onto the customer record
  with \<^verbatim>\<open>reload: false\<close>, and the customer read back from the database carries it.
\<close>

theorem known_email_uses_first_match:
  assumes "loadOrder db (o_id activeOrder) [''customer''] = Some ord"
    and "o_customer ord = Some cust"
    and "\<not> truthy (stripeCustomerId (c_customFields cust))"
    and "customers_list (stripe env) \<lparr>l_email = c_emailAddress cust\<rparr> = Inr found"
    and "data found = m # ms"
  shows "resultOf (getStripeCustomerId env ctx activeOrder db) = Inr (Some (sc_id m))
   \<and> effectsOf (getStripeCustomerId env ctx activeOrder db)
       = [RepoFindOneOrder (o_id activeOrder) [''customer''],
          StripeCustomersList \<lparr>l_email = c_emailAddress cust\<rparr>,
          RepoSaveCustomer
            (cust\<lparr>c_customFields := (c_customFields cust)\<lparr>stripeCustomerId := Some (sc_id m)\<rparr>\<rparr>)
            False]
   \<and> customerCreateRequests (effectsOf (getStripeCustomerId env ctx activeOrder db)) = []
   \<and> infoTraces (effectsOf (getStripeCustomerId env ctx activeOrder db)) = []
   \<and> loadCustomer (dbOf (getStripeCustomerId env ctx activeOrder db)) (c_id cust)
       = Some (cust\<lparr>c_customFields := (c_customFields cust)\<lparr>stripeCustomerId := Some (sc_id m)\<rparr>\<rparr>)"
proof -
  note run = resolve_found [OF assms]
  show ?thesis
    by (simp add: run loadCustomer_def customerRow_def)
qed

theorem known_email_uses_first_match_witness:
  "loadOrder sampleDb ''o2'' [''customer'']
     = Some ((sampleOrder ''o2'' ''ORD'' ''USD'' 1999)
         \<lparr>o_customer := Some (sampleCustomer ''c2'' ''known@example.com'' None)\<rparr>)
   \<and> customers_list (stripe (sampleEnv True)) \<lparr>l_email = ''known@example.com''\<rparr>
      = Inr \<lparr>data = [\<lparr>sc_id = ''cus_A'', sc_email = ''known@example.com''\<rparr>,
                       \<lparr>sc_id = ''cus_B'', sc_email = ''known@example.com''\<rparr>]\<rparr>
   \<and> resultOf (getStripeCustomerId (sampleEnv True) (sampleCtx (Some ''u1''))
        (sampleOrder ''o2'' ''ORD'' ''USD'' 1999) sampleDb) = Inr (Some ''cus_A'')
   \<and> effectsOf (getStripeCustomerId (sampleEnv True) (sampleCtx (Some ''u1''))
        (sampleOrder ''o2'' ''ORD'' ''USD'' 1999) sampleDb)
      = [RepoFindOneOrder ''o2'' [''customer''],
         StripeCustomersList \<lparr>l_email = ''known@example.com''\<rparr>,
         RepoSaveCustomer (sampleCustomer ''c2'' ''known@example.com'' (Some ''cus_A'')) False]
   \<and> loadCustomer (dbOf (getStripeCustomerId (sampleEnv True) (sampleCtx (Some ''u1''))
        (sampleOrder ''o2'' ''ORD'' ''USD'' 1999) sampleDb)) ''c2''
      = Some (sampleCustomer ''c2'' ''known@example.com'' (Some ''cus_A''))"
  using known_email_uses_first_match [where db = sampleDb
      and activeOrder = "sampleOrder ''o2'' ''ORD'' ''USD'' 1999"
      and ord = "(sampleOrder ''o2'' ''ORD'' ''USD'' 1999)
         \<lparr>o_customer := Some (sampleCustomer ''c2'' ''known@example.com'' None)\<rparr>"
      and cust = "sampleCustomer ''c2'' ''known@example.com'' None"
      and env = "sampleEnv True" and ctx = "sampleCtx (Some ''u1'')"
      and found = "\<lparr>data = [\<lparr>sc_id = ''cus_A'', sc_email = ''known@example.com''\<rparr>,
                       \<lparr>sc_id = ''cus_B'', sc_email = ''known@example.com''\<rparr>]\<rparr>"
      and m = "\<lparr>sc_id = ''cus_A'', sc_email = ''known@example.com''\<rparr>"
      and ms = "[\<lparr>sc_id = ''cus_B'', sc_email = ''known@example.com''\<rparr>]"]
  by (simp add: run_defs action_defs sample_defs)

subsection \<open>Creating the payment intent\<close>

text \<open>
  Claim C6. For every \<^verbatim>\<open>createPaymentIntent\<close> call where the option
  \<^verbatim>\<open>storeCustomersInStripe\<close> is false or the context has no active user id (it is absent,
  or falsy), the customer resolution is not entered: no order is re-fetched, no
  customer list or create call is issued, no customer is saved, the database is
  unchanged; exactly one payment-intent request is sent, and it carries no customer
  id.
\<close>

theorem no_customer_resolution_without_sync_or_user:
  assumes "\<not> storeCustomersInStripe (options env) \<or> \<not> truthy (activeUserId ctx)"
  shows "orderFetches (effectsOf (createPaymentIntent env ctx order db)) = []
   \<and> customerListRequests (effectsOf (createPaymentIntent env ctx order db)) = []
   \<and> customerCreateRequests (effectsOf (createPaymentIntent env ctx order db)) = []
   \<and> customerSaves (effectsOf (createPaymentIntent env ctx order db)) = []
   \<and> dbOf (createPaymentIntent env ctx order db) = db
   \<and> paymentIntentRequests (effectsOf (createPaymentIntent env ctx order db))
       = [intentRequest env ctx order None]
   \<and> map customer (paymentIntentRequests (effectsOf (createPaymentIntent env ctx order db)))
       = [None]"
proof -
  note step = create_without_resolution [OF assms, of order db]
  from create_run_shape [OF step]
  obtain ws where db: "dbOf (createPaymentIntent env ctx order db) = db"
    and effs: "effectsOf (createPaymentIntent env ctx order db)
          = StripePaymentIntentsCreate (intentRequest env ctx order None) # ws"
    and ws: "ws = [] \<or> ws = [noSecretWarning env order]"
    by auto
  from ws show ?thesis
  proof
    assume "ws = []"
    then show ?thesis using db effs by simp
  next
    assume "ws = [noSecretWarning env order]"
    then show ?thesis using db effs by simp
  qed
qed

theorem no_customer_resolution_without_sync_or_user_witness:
  "\<not> storeCustomersInStripe (options (sampleEnv False))
   \<and> effectsOf (createPaymentIntent (sampleEnv False) (sampleCtx (Some ''u1''))
        (sampleOrder ''o3'' ''ORD'' ''USD'' 1999) sampleDb)
      = [StripePaymentIntentsCreate
           \<lparr>amount = 1999, currency = ''usd'', customer = None,
            automatic_payment_methods = \<lparr>enabled = True\<rparr>,
            metadata = \<lparr>channelToken = ''default-channel'', orderId = ''o3'',
              orderCode = ''ORD''\<rparr>\<rparr>]
   \<and> \<not> truthy (activeUserId (sampleCtx None))
   \<and> effectsOf (createPaymentIntent (sampleEnv True) (sampleCtx None)
        (sampleOrder ''o3'' ''ORD'' ''USD'' 1999) sampleDb)
      = [StripePaymentIntentsCreate
           \<lparr>amount = 1999, currency = ''usd'', customer = None,
            automatic_payment_methods = \<lparr>enabled = True\<rparr>,
            metadata = \<lparr>channelToken = ''default-channel'', orderId = ''o3'',
              orderCode = ''ORD''\<rparr>\<rparr>]
   \<and> dbOf (createPaymentIntent (sampleEnv True) (sampleCtx None)
        (sampleOrder ''o3'' ''ORD'' ''USD'' 1999) sampleDb) = sampleDb"
  using no_customer_resolution_without_sync_or_user [of "sampleEnv False" "sampleCtx (Some ''u1'')"
      "sampleOrder ''o3'' ''ORD'' ''USD'' 1999" sampleDb]
    no_customer_resolution_without_sync_or_user [of "sampleEnv True" "sampleCtx None"
      "sampleOrder ''o3'' ''ORD'' ''USD'' 1999" sampleDb]
  by (simp add: run_defs action_defs sample_defs toLowerCase_def toLowerCase_char_def char_of_def bit_Suc_0_iff)

text \<open>
  Claim C7. For every \<^verbatim>\<open>createPaymentIntent\<close> call whose request the gateway answers:
  when the answer lacks a confirmation secret (\<^verbatim>\<open>client_secret\<close> is null), the method
  logs the warning that the order's payment intent came without client secret and
  returns absent, without throwing; otherwise it returns the \<^verbatim>\<open>client_secret\<close> of the
  answer.
\<close>

theorem missing_client_secret_returns_absent:
  assumes "p \<in> set (paymentIntentRequests (effectsOf (createPaymentIntent env ctx order db)))"
    and "paymentIntents_create (stripe env) p = Inr intent"
  shows "(client_secret intent = None
        \<longrightarrow> resultOf (createPaymentIntent env ctx order db) = Inr None
          \<and> warnings (effectsOf (createPaymentIntent env ctx order db))
            = [(''Payment intent creation for order '' @ o_code order
                  @ '' did not return client secret'', loggerCtx env)])
   \<and> (\<forall>s. client_secret intent = Some s
        \<longrightarrow> resultOf (createPaymentIntent env ctx order db) = Inr (Some s))"
proof (cases rule: create_cases [of env ctx order db])
  case (resolution_throws e db1 es1)
  with assms(1) show ?thesis
    by (simp add: create_after_thrown [OF resolution_throws(1)])
next
  case (gateway_throws cid db1 es1 e)
  with assms(1) have "p = intentRequest env ctx order cid"
    by (simp add: create_gateway_throws [OF gateway_throws(1,3)] paymentIntentRequests_append)
  with assms(2) gateway_throws(3) show ?thesis by simp
next
  case (gateway_answers cid db1 es1 answer)
  note run = create_gateway_answers [OF gateway_answers(1,3)]
  from assms(1) gateway_answers(2) have "p = intentRequest env ctx order cid"
    by (simp add: run paymentIntentRequests_append split: if_splits)
  with assms(2) gateway_answers(3) have same: "answer = intent" by simp
  have quiet: "warnings es1 = []"
    using customerStep_no_warnings [of env ctx order db] gateway_answers(1) by simp
  show ?thesis
    by (simp add: run same quiet warnings_append)
qed

theorem missing_client_secret_returns_absent_witness:
  "paymentIntentRequests (effectsOf (createPaymentIntent (sampleEnv False) (sampleCtx None)
        (sampleOrder ''o1'' ''NOSECRET'' ''USD'' 1999) sampleDb))
     = [\<lparr>amount = 1999, currency = ''usd'', customer = None,
         automatic_payment_methods = \<lparr>enabled = True\<rparr>,
         metadata = \<lparr>channelToken = ''default-channel'', orderId = ''o1'',
           orderCode = ''NOSECRET''\<rparr>\<rparr>]
   \<and> paymentIntents_create (stripe (sampleEnv False))
        \<lparr>amount = 1999, currency = ''usd'', customer = None,
         automatic_payment_methods = \<lparr>enabled = True\<rparr>,
         metadata = \<lparr>channelToken = ''default-channel'', orderId = ''o1'',
           orderCode = ''NOSECRET''\<rparr>\<rparr>
      = Inr \<lparr>pi_id = ''pi_1'', client_secret = None\<rparr>
   \<and> resultOf (createPaymentIntent (sampleEnv False) (sampleCtx None)
        (sampleOrder ''o1'' ''NOSECRET'' ''USD'' 1999) sampleDb) = Inr None
   \<and> warnings (effectsOf (createPaymentIntent (sampleEnv False) (sampleCtx None)
        (sampleOrder ''o1'' ''NOSECRET'' ''USD'' 1999) sampleDb))
      = [(''Payment intent creation for order NOSECRET did not return client secret'',
          ''StripePlugin'')]
   \<and> paymentIntents_create (stripe (sampleEnv False))
        \<lparr>amount = 1999, currency = ''usd'', customer = None,
         automatic_payment_methods = \<lparr>enabled = True\<rparr>,
         metadata = \<lparr>channelToken = ''default-channel'', orderId = ''o1'',
           orderCode = ''ORD''\<rparr>\<rparr>
      = Inr \<lparr>pi_id = ''pi_1'', client_secret = Some ''pi_1_secret''\<rparr>
   \<and> resultOf (createPaymentIntent (sampleEnv False) (sampleCtx None)
        (sampleOrder ''o1'' ''ORD'' ''USD'' 1999) sampleDb) = Inr (Some ''pi_1_secret'')"
  using missing_client_secret_returns_absent [where env = "sampleEnv False"
      and ctx = "sampleCtx None" and order = "sampleOrder ''o1'' ''NOSECRET'' ''USD'' 1999"
      and db = sampleDb
      and p = "\<lparr>amount = 1999, currency = ''usd'', customer = None,
         automatic_payment_methods = \<lparr>enabled = True\<rparr>,
         metadata = \<lparr>channelToken = ''default-channel'', orderId = ''o1'',
           orderCode = ''NOSECRET''\<rparr>\<rparr>"
      and intent = "\<lparr>pi_id = ''pi_1'', client_secret = None\<rparr>"]
    missing_client_secret_returns_absent [where env = "sampleEnv False"
      and ctx = "sampleCtx None" and order = "sampleOrder ''o1'' ''ORD'' ''USD'' 1999"
      and db = sampleDb
      and p = "\<lparr>amount = 1999, currency = ''usd'', customer = None,
         automatic_payment_methods = \<lparr>enabled = True\<rparr>,
         metadata = \<lparr>channelToken = ''default-channel'', orderId = ''o1'',
           orderCode = ''ORD''\<rparr>\<rparr>"
      and intent = "\<lparr>pi_id = ''pi_1'', client_secret = Some ''pi_1_secret''\<rparr>"]
  by (simp add: run_defs action_defs sample_defs toLowerCase_def toLowerCase_char_def
      char_of_def bit_Suc_0_iff)

text \<open>
  Claim C9. For every resolution of a remote customer id where the re-fetched order is
  absent or has no associated customer, the resolution returns absent without
  throwing; its only effect is the re-fetch (no gateway call, no save) and the database
  is unchanged. A \<^verbatim>\<open>createPaymentIntent\<close> that takes this path (the option is set and the
  context has a user) still sends its payment-intent request, with no customer id, and
  returns what the gateway's answer holds.
\<close>

theorem absent_order_or_customer_resolves_absent:
  assumes "loadOrder db (o_id order) [''customer''] = None
     \<or> (\<exists>ord. loadOrder db (o_id order) [''customer''] = Some ord \<and> o_customer ord = None)"
  shows "getStripeCustomerId env ctx order db
       = (Inr None, db, [RepoFindOneOrder (o_id order) [''customer'']])
   \<and> (storeCustomersInStripe (options env) \<and> truthy (activeUserId ctx)
       \<longrightarrow> paymentIntentRequests (effectsOf (createPaymentIntent env ctx order db))
             = [intentRequest env ctx order None]
         \<and> map customer (paymentIntentRequests (effectsOf (createPaymentIntent env ctx order db)))
             = [None]
         \<and> customerListRequests (effectsOf (createPaymentIntent env ctx order db)) = []
         \<and> customerCreateRequests (effectsOf (createPaymentIntent env ctx order db)) = []
         \<and> customerSaves (effectsOf (createPaymentIntent env ctx order db)) = []
         \<and> dbOf (createPaymentIntent env ctx order db) = db
         \<and> (\<forall>intent.
               paymentIntents_create (stripe env) (intentRequest env ctx order None) = Inr intent
               \<longrightarrow> resultOf (createPaymentIntent env ctx order db) = Inr (client_secret intent)))"
proof (intro conjI impI)
  show resolve: "getStripeCustomerId env ctx order db
       = (Inr None, db, [RepoFindOneOrder (o_id order) [''customer'']])"
    using assms resolve_no_order resolve_no_customer by blast
  assume on: "storeCustomersInStripe (options env) \<and> truthy (activeUserId ctx)"
  then have step: "customerStep env ctx order db
       = (Inr None, db, [RepoFindOneOrder (o_id order) [''customer'']])"
    using resolve by simp
  from create_run_shape [OF step]
  obtain ws where db: "dbOf (createPaymentIntent env ctx order db) = db"
    and effs: "effectsOf (createPaymentIntent env ctx order db)
          = [RepoFindOneOrder (o_id order) [''customer''],
             StripePaymentIntentsCreate (intentRequest env ctx order None)] @ ws"
    and ws: "ws = [] \<or> ws = [noSecretWarning env order]"
    and res: "\<forall>intent.
               paymentIntents_create (stripe env) (intentRequest env ctx order None) = Inr intent
               \<longrightarrow> resultOf (createPaymentIntent env ctx order db) = Inr (client_secret intent)"
    by auto
  show "dbOf (createPaymentIntent env ctx order db) = db" by (rule db)
  show "\<forall>intent.
               paymentIntents_create (stripe env) (intentRequest env ctx order None) = Inr intent
               \<longrightarrow> resultOf (createPaymentIntent env ctx order db) = Inr (client_secret intent)"
    by (rule res)
  show "paymentIntentRequests (effectsOf (createPaymentIntent env ctx order db))
             = [intentRequest env ctx order None]"
    using ws by (rule disjE) (simp_all add: effs)
  show "map customer (paymentIntentRequests (effectsOf (createPaymentIntent env ctx order db)))
             = [None]"
    using ws by (rule disjE) (simp_all add: effs)
  show "customerListRequests (effectsOf (createPaymentIntent env ctx order db)) = []"
    using ws by (rule disjE) (simp_all add: effs)
  show "customerCreateRequests (effectsOf (createPaymentIntent env ctx order db)) = []"
    using ws by (rule disjE) (simp_all add: effs)
  show "customerSaves (effectsOf (createPaymentIntent env ctx order db)) = []"
    using ws by (rule disjE) (simp_all add: effs)
qed

theorem absent_order_or_customer_resolves_absent_witness:
  "loadOrder sampleDb ''o9'' [''customer''] = None
   \<and> getStripeCustomerId (sampleEnv True) (sampleCtx (Some ''u1''))
        (sampleOrder ''o9'' ''ORD'' ''USD'' 1999) sampleDb
      = (Inr None, sampleDb, [RepoFindOneOrder ''o9'' [''customer'']])
   \<and> loadOrder sampleDb ''o4'' [''customer''] = Some (sampleOrder ''o4'' ''ORD'' ''USD'' 1999)
   \<and> o_customer (sampleOrder ''o4'' ''ORD'' ''USD'' 1999) = None
   \<and> getStripeCustomerId (sampleEnv True) (sampleCtx (Some ''u1''))
        (sampleOrder ''o4'' ''ORD'' ''USD'' 1999) sampleDb
      = (Inr None, sampleDb, [RepoFindOneOrder ''o4'' [''customer'']])
   \<and> storeCustomersInStripe (options (sampleEnv True))
   \<and> truthy (activeUserId (sampleCtx (Some ''u1'')))
   \<and> createPaymentIntent (sampleEnv True) (sampleCtx (Some ''u1''))
        (sampleOrder ''o4'' ''ORD'' ''USD'' 1999) sampleDb
      = (Inr (Some ''pi_1_secret''), sampleDb,
         [RepoFindOneOrder ''o4'' [''customer''],
          StripePaymentIntentsCreate
            \<lparr>amount = 1999, currency = ''usd'', customer = None,
             automatic_payment_methods = \<lparr>enabled = True\<rparr>,
             metadata = \<lparr>channelToken = ''default-channel'', orderId = ''o4'',
               orderCode = ''ORD''\<rparr>\<rparr>])"
  using absent_order_or_customer_resolves_absent [of sampleDb
      "sampleOrder ''o9'' ''ORD'' ''USD'' 1999" "sampleEnv True" "sampleCtx (Some ''u1'')"]
    absent_order_or_customer_resolves_absent [of sampleDb
      "sampleOrder ''o4'' ''ORD'' ''USD'' 1999" "sampleEnv True" "sampleCtx (Some ''u1'')"]
  by (simp add: run_defs action_defs sample_defs toLowerCase_def toLowerCase_char_def
      char_of_def bit_Suc_0_iff)

end
